theory Spec2Isabelle
  imports Main
begin

section \<open>Statuses and outcomes\<close>

text \<open>
  The executor of \<^verbatim>\<open>query_config_executor.cc\<close> reports through \<^verbatim>\<open>absl::Status\<close>: a code
  and a message. A call can also end the process (\<^verbatim>\<open>LOG(FATAL)\<close>, a failed \<^verbatim>\<open>CHECK\<close>);
  that is the outcome \<open>Fatal\<close>, which no caller can observe as a status.
\<close>

datatype StatusCode =
    kOk | kCancelled | kUnknown | kInvalidArgument | kDeadlineExceeded | kNotFound
  | kAlreadyExists | kPermissionDenied | kResourceExhausted | kFailedPrecondition
  | kAborted | kOutOfRange | kUnimplemented | kInternal | kUnavailable | kDataLoss
  | kUnauthenticated

datatype Status = Status (status_code: StatusCode) (status_message: string)

definition OkStatus :: Status where
  "OkStatus = Status kOk []"

definition ok :: "Status \<Rightarrow> bool" where
  "ok s = (status_code s = kOk)"

definition InvalidArgumentError :: "string \<Rightarrow> Status" where
  "InvalidArgumentError m = Status kInvalidArgument m"

definition NotFoundError :: "string \<Rightarrow> Status" where
  "NotFoundError m = Status kNotFound m"

definition FailedPreconditionError :: "string \<Rightarrow> Status" where
  "FailedPreconditionError m = Status kFailedPrecondition m"

definition AbortedError :: "string \<Rightarrow> Status" where
  "AbortedError m = Status kAborted m"

definition InternalError :: "string \<Rightarrow> Status" where
  "InternalError m = Status kInternal m"

definition DataLossError :: "string \<Rightarrow> Status" where
  "DataLossError m = Status kDataLoss m"

definition IsNotFound :: "Status \<Rightarrow> bool" where
  "IsNotFound s = (status_code s = kNotFound)"

datatype 'a outcome = Fatal | Returned 'a

text \<open>
  An operation of the executor on a database of type \<open>'db\<close>: it either ends the process
  or returns a status and the database as the operation left it.
\<close>

type_synonym 'db action = "'db \<Rightarrow> (Status \<times> 'db) outcome"

text \<open>
  \<^verbatim>\<open>MLMD_RETURN_WITH_CONTEXT_IF_ERROR\<close> (return_utils.h) returns, for a status that is
  not ok, a status of the same code whose message is the context followed by the
  original message.
\<close>

definition with_context :: "string \<Rightarrow> Status \<Rightarrow> Status" where
  "with_context context s = Status (status_code s) (context @ status_message s)"

section \<open>Strings\<close>

text \<open>Decimal rendering of an integer, as \<^verbatim>\<open>std::to_string\<close> and \<^verbatim>\<open>absl::StrCat\<close> give it.\<close>

fun digits_of :: "nat \<Rightarrow> string" where
  "digits_of n =
     (if n < 10 then [''0123456789'' ! n]
      else digits_of (n div 10) @ [''0123456789'' ! (n mod 10)])"

declare digits_of.simps [simp del]

definition to_string :: "int \<Rightarrow> string" where
  "to_string i = (if i < 0 then CHR ''-'' # digits_of (nat (- i)) else digits_of (nat i))"

fun StrJoin :: "string list \<Rightarrow> string \<Rightarrow> string" where
  "StrJoin [] sep = []"
| "StrJoin [x] sep = x"
| "StrJoin (x # y # ys) sep = x @ sep @ StrJoin (y # ys) sep"

fun starts_with :: "string \<Rightarrow> string \<Rightarrow> bool" where
  "starts_with s [] = True"
| "starts_with [] (p # ps) = False"
| "starts_with (c # cs) (p # ps) = (c = p \<and> starts_with cs ps)"

fun StrContains :: "string \<Rightarrow> string \<Rightarrow> bool" where
  "StrContains [] needle = (needle = [])"
| "StrContains (c # cs) needle = (starts_with (c # cs) needle \<or> StrContains cs needle)"

text \<open>
  \<^verbatim>\<open>absl::StrReplaceAll\<close>: one pass from left to right; at each position the longest
  non-empty pattern that matches there is replaced (the first such in the list when
  several have that length) and the scan goes on after the pattern; replaced text is not
  scanned again.
\<close>

fun find_replacement :: "(string \<times> string) list \<Rightarrow> string \<Rightarrow> (string \<times> string) option" where
  "find_replacement [] s = None"
| "find_replacement ((old, new) # rs) s =
     (case find_replacement rs s of
        None \<Rightarrow> (if old \<noteq> [] \<and> starts_with s old then Some (old, new) else None)
      | Some (old', new') \<Rightarrow>
          (if old \<noteq> [] \<and> starts_with s old \<and> length old' \<le> length old
           then Some (old, new) else Some (old', new')))"

fun replace_scan :: "(string \<times> string) list \<Rightarrow> nat \<Rightarrow> string \<Rightarrow> string" where
  "replace_scan rs skip [] = []"
| "replace_scan rs (Suc skip) (c # cs) = replace_scan rs skip cs"
| "replace_scan rs 0 (c # cs) =
     (case find_replacement rs (c # cs) of
        None \<Rightarrow> c # replace_scan rs 0 cs
      | Some (old, new) \<Rightarrow> new @ replace_scan rs (length old - 1) cs)"

definition StrReplaceAll :: "string \<Rightarrow> (string \<times> string) list \<Rightarrow> string" where
  "StrReplaceAll s replacements = replace_scan replacements 0 s"

section \<open>The query catalog and the record set\<close>

record RecordSet =
  column_names :: "string list"
  records :: "string list list"

definition empty_RecordSet :: RecordSet where
  "empty_RecordSet = \<lparr>column_names = [], records = []\<rparr>"

text \<open>
  A template query of the catalog. \<open>parameter_num\<close> is a 32-bit signed field of the
  message; it is kept as an integer and converted where the code converts it.
\<close>

record TemplateQuery =
  query :: string
  parameter_num :: int

record MigrationScheme =
  upgrade_queries :: "TemplateQuery list"
  downgrade_queries :: "TemplateQuery list"

record MetadataSourceQueryConfig =
  schema_version :: int
  check_mlmd_env_table :: TemplateQuery
  check_tables_in_v0_13_2 :: TemplateQuery
  check_parent_type_table :: TemplateQuery
  check_parent_context_table :: TemplateQuery
  create_type_table :: TemplateQuery
  create_type_property_table :: TemplateQuery
  create_parent_type_table :: TemplateQuery
  create_artifact_table :: TemplateQuery
  create_artifact_property_table :: TemplateQuery
  create_execution_table :: TemplateQuery
  create_execution_property_table :: TemplateQuery
  create_event_table :: TemplateQuery
  create_event_path_table :: TemplateQuery
  create_mlmd_env_table :: TemplateQuery
  create_context_table :: TemplateQuery
  create_context_property_table :: TemplateQuery
  create_parent_context_table :: TemplateQuery
  create_association_table :: TemplateQuery
  create_attribution_table :: TemplateQuery
  secondary_indices :: "TemplateQuery list"
  migration_schemes :: "int \<rightharpoonup> MigrationScheme"

section \<open>List options\<close>

datatype Field = CREATE_TIME | LAST_UPDATE_TIME | ID

record OrderByField =
  field :: Field
  is_asc :: bool

record ListOperationOptions =
  max_result_size :: int
  order_by_field :: OrderByField
  next_page_token :: string

section \<open>What the executor is given\<close>

text \<open>
  The metadata source (the dialect driver) and the parts of the executor that live in
  \<^verbatim>\<open>query_config_executor.h\<close>, \<^verbatim>\<open>query_executor.cc\<close> and
  \<^verbatim>\<open>list_operation_query_helper.cc\<close> are parameters of the model: the theorems hold for
  every driver and every implementation of these methods.
  \<^item> \<open>source_ExecuteQuery\<close> is \<^verbatim>\<open>metadata_source_->ExecuteQuery(query, record_set)\<close>: it
    receives the query text and the record set it is to fill, and returns a status.
  \<^item> \<open>SimpleAtoi\<close> is \<^verbatim>\<open>absl::SimpleAtoi\<close> at \<^verbatim>\<open>int64\<close>; \<open>None\<close> is its \<^verbatim>\<open>false\<close>.
  \<^item> \<open>DebugString\<close> is \<^verbatim>\<open>RecordSet::DebugString\<close>.
  \<^item> \<open>query_schema_version_given\<close> is the truth value of \<^verbatim>\<open>query_schema_version()\<close> in
    the condition of line 483.
\<close>

record 'db executor_env =
  source_ExecuteQuery :: "string \<Rightarrow> RecordSet \<Rightarrow> 'db \<Rightarrow> Status \<times> RecordSet \<times> 'db"
  SimpleAtoi :: "string \<Rightarrow> int option"
  DebugString :: "RecordSet \<Rightarrow> string"
  GetLibraryVersion :: int
  query_schema_version_given :: bool
  InsertSchemaVersion :: "int \<Rightarrow> 'db action"
  UpdateSchemaVersion :: "int \<Rightarrow> 'db action"
  CheckSchemaVersionAlignsWithQueryVersion :: "'db action"
  CheckTypeTable :: "'db action"
  CheckTypePropertyTable :: "'db action"
  CheckArtifactTable :: "'db action"
  CheckArtifactPropertyTable :: "'db action"
  CheckExecutionTable :: "'db action"
  CheckExecutionPropertyTable :: "'db action"
  CheckEventTable :: "'db action"
  CheckEventPathTable :: "'db action"
  CheckMLMDEnvTable :: "'db action"
  CheckContextTable :: "'db action"
  CheckContextPropertyTable :: "'db action"
  CheckAssociationTable :: "'db action"
  CheckAttributionTable :: "'db action"
  AppendOrderingThresholdClause_fn :: "ListOperationOptions \<Rightarrow> string \<Rightarrow> Status \<times> string"
  AppendOrderByClause_fn :: "ListOperationOptions \<Rightarrow> string \<Rightarrow> Status \<times> string"
  AppendLimitClause_fn :: "ListOperationOptions \<Rightarrow> string \<Rightarrow> Status \<times> string"

section \<open>ExecuteQuery\<close>

text \<open>Lines 388-391: a query text, run with a record set of the call's own.\<close>

definition ExecuteQuery_string :: "'db executor_env \<Rightarrow> string \<Rightarrow> 'db action" where
  "ExecuteQuery_string E q db =
     (case source_ExecuteQuery E q empty_RecordSet db of
        (s, record_set, db') \<Rightarrow> Returned (s, db'))"

text \<open>Lines 393-396: a query text, run with the caller's record set.\<close>

definition ExecuteQuery_string_rs ::
  "'db executor_env \<Rightarrow> string \<Rightarrow> RecordSet \<Rightarrow> 'db \<Rightarrow> (Status \<times> RecordSet \<times> 'db) outcome" where
  "ExecuteQuery_string_rs E q record_set db = Returned (source_ExecuteQuery E q record_set db)"

text \<open>
  Lines 398-417: a template query with its parameters. The comparison of
  \<^verbatim>\<open>parameter_num()\<close> (32-bit, signed) with \<^verbatim>\<open>parameters.size()\<close> (64-bit, unsigned)
  converts the former to 64 bits unsigned, which is \<open>mod 2 ^ 64\<close>.
\<close>

definition replacements_of :: "string list \<Rightarrow> (string \<times> string) list" where
  "replacements_of parameters =
     map (\<lambda>i. (''$'' @ to_string (int i), parameters ! i)) [0..<length parameters]"

definition ExecuteQuery ::
  "'db executor_env \<Rightarrow> TemplateQuery \<Rightarrow> string list \<Rightarrow> RecordSet \<Rightarrow> 'db
     \<Rightarrow> (Status \<times> RecordSet \<times> 'db) outcome" where
  "ExecuteQuery E template_query parameters record_set db =
     (if length parameters > 10 then
        Returned (InvalidArgumentError
          ''Template query has too many parameters (at most 10 is supported).'', record_set, db)
      else if parameter_num template_query mod 2 ^ 64 \<noteq> int (length parameters) then Fatal
      else Returned (source_ExecuteQuery E
             (StrReplaceAll (query template_query) (replacements_of parameters)) record_set db))"

text \<open>
  The calls \<^verbatim>\<open>ExecuteQuery(template_query)\<close> and \<^verbatim>\<open>ExecuteQuery(template_query, {...})\<close>
  without a record set go through an overload declared in the header, which is not among
  the sources. It is taken to do what the string overload of lines 388-391 does: run the
  three-argument form with a record set of its own and return the status.
\<close>

definition ExecuteQuery_template :: "'db executor_env \<Rightarrow> TemplateQuery \<Rightarrow> string list \<Rightarrow> 'db action" where
  "ExecuteQuery_template E template_query parameters db =
     (case ExecuteQuery E template_query parameters empty_RecordSet db of
        Fatal \<Rightarrow> Fatal
      | Returned (s, record_set, db') \<Rightarrow> Returned (s, db'))"

text \<open>Lines 65-67 and 100-102.\<close>

definition CheckParentTypeTable :: "'db executor_env \<Rightarrow> MetadataSourceQueryConfig \<Rightarrow> 'db action" where
  "CheckParentTypeTable E query_config = ExecuteQuery_template E (check_parent_type_table query_config) []"

definition CheckParentContextTable :: "'db executor_env \<Rightarrow> MetadataSourceQueryConfig \<Rightarrow> 'db action" where
  "CheckParentContextTable E query_config =
     ExecuteQuery_template E (check_parent_context_table query_config) []"

section \<open>Schema version\<close>

text \<open>
  Lines 123-152. \<open>db_version\<close> is the caller's variable behind the pointer: the value
  passed in is the one returned whenever the code does not assign it. Reading
  \<^verbatim>\<open>values(0)\<close> of a row that has no cell ends the process, as a failed
  \<^verbatim>\<open>CHECK(absl::SimpleAtoi(...))\<close> does.
\<close>

definition GetSchemaVersion ::
  "'db executor_env \<Rightarrow> MetadataSourceQueryConfig \<Rightarrow> int \<Rightarrow> 'db \<Rightarrow> (Status \<times> int \<times> 'db) outcome" where
  "GetSchemaVersion E query_config db_version db =
     (case ExecuteQuery E (check_mlmd_env_table query_config) [] empty_RecordSet db of
        Fatal \<Rightarrow> Fatal
      | Returned (maybe_schema_version_status, record_set, db1) \<Rightarrow>
          if ok maybe_schema_version_status then
            (if length (records record_set) = 0 then
               Returned (AbortedError
                 (''In the given db, MLMDEnv table exists but no schema_version can be ''
                  @ ''found. This may be due to concurrent connection to the empty ''
                  @ ''database. Please retry connection.''), db_version, db1)
             else if length (records record_set) > 1 then
               Returned (DataLossError
                 (''In the given db, MLMDEnv table exists but schema_version cannot be ''
                  @ ''resolved due to there being more than one rows with the schema ''
                  @ ''version. Expecting a single row: '' @ DebugString E record_set),
                 db_version, db1)
             else
               (case hd (records record_set) of
                  [] \<Rightarrow> Fatal
                | cell # cells \<Rightarrow>
                    (case SimpleAtoi E cell of
                       None \<Rightarrow> Fatal
                     | Some v \<Rightarrow> Returned (OkStatus, v, db1))))
          else
            (case ExecuteQuery E (check_tables_in_v0_13_2 query_config) [] record_set db1 of
               Fatal \<Rightarrow> Fatal
             | Returned (maybe_v0_13_2_status, record_set2, db2) \<Rightarrow>
                 if ok maybe_v0_13_2_status then Returned (OkStatus, 0, db2)
                 else Returned (NotFoundError ''it looks an empty db is given.'', db_version, db2)))"

text \<open>Lines 419-426.\<close>

definition IsCompatible :: "int \<Rightarrow> int \<Rightarrow> Status \<times> bool" where
  "IsCompatible db_version lib_version = (OkStatus, db_version = lib_version)"

text \<open>\<^verbatim>\<open>MLMD_RETURN_IF_ERROR\<close> (return_utils.h) in front of the rest of a function body.\<close>

definition MLMD_RETURN_IF_ERROR :: "'db action \<Rightarrow> 'db action \<Rightarrow> 'db action" where
  "MLMD_RETURN_IF_ERROR expr rest db =
     (case expr db of
        Fatal \<Rightarrow> Fatal
      | Returned (s, db') \<Rightarrow> if \<not> ok s then Returned (s, db') else rest db')"

section \<open>Upgrade\<close>

text \<open>Lines 198-203: the upgrade queries of one migration scheme, by their text.\<close>

fun run_upgrade_queries :: "'db executor_env \<Rightarrow> TemplateQuery list \<Rightarrow> 'db action" where
  "run_upgrade_queries E [] db = Returned (OkStatus, db)"
| "run_upgrade_queries E (upgrade_query # rest) db =
     (case ExecuteQuery_string E (query upgrade_query) db of
        Fatal \<Rightarrow> Fatal
      | Returned (s, db') \<Rightarrow>
          if \<not> ok s then
            Returned (with_context (''Upgrade query failed: '' @ query upgrade_query) s, db')
          else run_upgrade_queries E rest db')"

text \<open>Lines 192-208: the loop from \<open>db_version\<close> up to \<open>lib_version\<close>.\<close>

function upgrade_loop ::
  "'db executor_env \<Rightarrow> MetadataSourceQueryConfig \<Rightarrow> int \<Rightarrow> int \<Rightarrow> 'db action" where
  "upgrade_loop E query_config db_version lib_version db =
     (if db_version < lib_version then
        (case migration_schemes query_config (db_version + 1) of
           None \<Rightarrow>
             Returned (InternalError
               (''Cannot find migration_schemes to version '' @ to_string (db_version + 1)), db)
         | Some scheme \<Rightarrow>
             (case run_upgrade_queries E (upgrade_queries scheme) db of
                Fatal \<Rightarrow> Fatal
              | Returned (s, db1) \<Rightarrow>
                  if \<not> ok s then Returned (s, db1)
                  else
                    (case UpdateSchemaVersion E (db_version + 1) db1 of
                       Fatal \<Rightarrow> Fatal
                     | Returned (s2, db2) \<Rightarrow>
                         if \<not> ok s2 then
                           Returned (with_context ''Failed to update schema.'' s2, db2)
                         else upgrade_loop E query_config (db_version + 1) lib_version db2)))
      else Returned (OkStatus, db))"
  by pat_completeness auto
termination
  by (relation "measure (\<lambda>(E, query_config, db_version, lib_version, db). nat (lib_version - db_version))")
     auto

declare upgrade_loop.simps [simp del]

text \<open>Lines 165-208, with \<open>db_version\<close> as lines 156-163 leave it.\<close>

definition upgrade_from_version ::
  "'db executor_env \<Rightarrow> MetadataSourceQueryConfig \<Rightarrow> bool \<Rightarrow> int \<Rightarrow> int \<Rightarrow> 'db action" where
  "upgrade_from_version E query_config enable_migration db_version lib_version db =
     (case IsCompatible db_version lib_version of
        (s, is_compatible) \<Rightarrow>
          if \<not> ok s then Returned (s, db)
          else if is_compatible then Returned (OkStatus, db)
          else if db_version > lib_version then
            Returned (FailedPreconditionError
              (''MLMD database version '' @ to_string db_version
               @ '' is greater than library version '' @ to_string lib_version
               @ ''. Please upgrade the library to use the given database in order to ''
               @ ''prevent potential data loss. If data loss is acceptable, please''
               @ '' downgrade the database using a newer version of library.''), db)
          else if db_version < lib_version \<and> \<not> enable_migration then
            Returned (FailedPreconditionError
              (''MLMD database version '' @ to_string db_version
               @ '' is older than library version '' @ to_string lib_version
               @ ''. Schema migration is disabled. Please upgrade the database then use''
               @ '' the library version; or switch to a older library version to use the''
               @ '' current database. For more details, please refer to ml-metadata''
               @ '' https://github.com/google/ml-metadata/blob/master/g3doc/get_started.md#upgrade-the-database-schema''),
              db)
          else upgrade_loop E query_config db_version lib_version db)"

text \<open>Lines 154-209.\<close>

definition UpgradeMetadataSourceIfOutOfDate ::
  "'db executor_env \<Rightarrow> MetadataSourceQueryConfig \<Rightarrow> bool \<Rightarrow> 'db action" where
  "UpgradeMetadataSourceIfOutOfDate E query_config enable_migration db =
     (case GetSchemaVersion E query_config 0 db of
        Fatal \<Rightarrow> Fatal
      | Returned (get_schema_version_status, db_version, db1) \<Rightarrow>
          if IsNotFound get_schema_version_status then
            upgrade_from_version E query_config enable_migration
              (GetLibraryVersion E) (GetLibraryVersion E) db1
          else if \<not> ok get_schema_version_status then Returned (get_schema_version_status, db1)
          else
            upgrade_from_version E query_config enable_migration
              db_version (GetLibraryVersion E) db1)"

section \<open>Downgrade\<close>

text \<open>Lines 265-270: the downgrade queries of one migration scheme, as template queries.\<close>

fun run_downgrade_queries :: "'db executor_env \<Rightarrow> TemplateQuery list \<Rightarrow> 'db action" where
  "run_downgrade_queries E [] db = Returned (OkStatus, db)"
| "run_downgrade_queries E (downgrade_query # rest) db =
     (case ExecuteQuery_template E downgrade_query [] db of
        Fatal \<Rightarrow> Fatal
      | Returned (s, db') \<Rightarrow>
          if \<not> ok s then
            Returned (with_context
              (''Failed to migrate existing db; the '' @ ''migration transaction rolls back.'') s, db')
          else run_downgrade_queries E rest db')"

text \<open>Lines 259-280: the loop from \<open>db_version\<close> down to \<open>to_schema_version\<close>.\<close>

function downgrade_loop ::
  "'db executor_env \<Rightarrow> MetadataSourceQueryConfig \<Rightarrow> int \<Rightarrow> int \<Rightarrow> 'db action" where
  "downgrade_loop E query_config db_version to_schema_version db =
     (if db_version > to_schema_version then
        (case migration_schemes query_config (db_version - 1) of
           None \<Rightarrow>
             Returned (InternalError
               (''Cannot find migration_schemes to version '' @ to_string (db_version - 1)), db)
         | Some scheme \<Rightarrow>
             (case run_downgrade_queries E (downgrade_queries scheme) db of
                Fatal \<Rightarrow> Fatal
              | Returned (s, db1) \<Rightarrow>
                  if \<not> ok s then Returned (s, db1)
                  else if db_version - 1 > 0 then
                    (case UpdateSchemaVersion E (db_version - 1) db1 of
                       Fatal \<Rightarrow> Fatal
                     | Returned (s2, db2) \<Rightarrow>
                         if \<not> ok s2 then
                           Returned (with_context
                             (''Failed to migrate existing db; the migration transaction rolls ''
                              @ ''back.'') s2, db2)
                         else downgrade_loop E query_config (db_version - 1) to_schema_version db2)
                  else downgrade_loop E query_config (db_version - 1) to_schema_version db1))
      else Returned (OkStatus, db))"
  by pat_completeness auto
termination
  by (relation "measure (\<lambda>(E, query_config, db_version, to_schema_version, db).
                  nat (db_version - to_schema_version))")
     auto

declare downgrade_loop.simps [simp del]

text \<open>Lines 232-281.\<close>

definition DowngradeMetadataSource ::
  "'db executor_env \<Rightarrow> MetadataSourceQueryConfig \<Rightarrow> int \<Rightarrow> 'db action" where
  "DowngradeMetadataSource E query_config to_schema_version db =
     (if to_schema_version < 0 \<or> to_schema_version > schema_version query_config then
        Returned (InvalidArgumentError
          (''MLMD cannot be downgraded to schema_version: '' @ to_string to_schema_version
           @ ''. The target version should be greater or equal to 0, and the current''
           @ '' library version: '' @ to_string (schema_version query_config)
           @ '' needs to be greater than the target version.''), db)
      else
        (case GetSchemaVersion E query_config 0 db of
           Fatal \<Rightarrow> Fatal
         | Returned (get_schema_version_status, db_version, db1) \<Rightarrow>
             if IsNotFound get_schema_version_status then
               Returned (InvalidArgumentError
                 ''Empty database is given. Downgrade operation is not needed.'', db1)
             else if \<not> ok get_schema_version_status then
               Returned (get_schema_version_status, db1)
             else if db_version > schema_version query_config then
               Returned (FailedPreconditionError
                 (''MLMD database version '' @ to_string db_version
                  @ '' is greater than library version '' @ to_string (schema_version query_config)
                  @ ''. The current library does not know how to downgrade it. ''
                  @ ''Please upgrade the library to downgrade the schema.''), db1)
             else downgrade_loop E query_config db_version to_schema_version db1))"

section \<open>Initialization\<close>

text \<open>Lines 449-459: the secondary indices; a failure that names a duplicate key is passed over.\<close>

fun create_secondary_indices :: "'db executor_env \<Rightarrow> TemplateQuery list \<Rightarrow> 'db action" where
  "create_secondary_indices E [] db = Returned (OkStatus, db)"
| "create_secondary_indices E (index_query # rest) db =
     (case ExecuteQuery_template E index_query [] db of
        Fatal \<Rightarrow> Fatal
      | Returned (s, db') \<Rightarrow>
          if \<not> ok s \<and> StrContains (status_message s) ''Duplicate key name'' then
            create_secondary_indices E rest db'
          else if \<not> ok s then Returned (s, db')
          else create_secondary_indices E rest db')"

text \<open>Lines 461-476: the library version is written; a failed write is checked against the stored version.\<close>

definition insert_library_version :: "'db executor_env \<Rightarrow> MetadataSourceQueryConfig \<Rightarrow> 'db action" where
  "insert_library_version E query_config db =
     (case InsertSchemaVersion E (GetLibraryVersion E) db of
        Fatal \<Rightarrow> Fatal
      | Returned (insert_schema_version_status, db1) \<Rightarrow>
          if \<not> ok insert_schema_version_status then
            (case GetSchemaVersion E query_config (- 1) db1 of
               Fatal \<Rightarrow> Fatal
             | Returned (s, db_version, db2) \<Rightarrow>
                 if \<not> ok s then Returned (s, db2)
                 else if db_version \<noteq> GetLibraryVersion E then
                   Returned (DataLossError
                     (''The database cannot be initialized with the schema_version in the ''
                      @ ''current library. Current library version: ''
                      @ to_string (GetLibraryVersion E)
                      @ '', the db version on record is: '' @ to_string db_version
                      @ ''. It may result from a data race condition caused by other ''
                      @ ''concurrent MLMD's migration procedures.''), db2)
                 else Returned (OkStatus, db2))
          else Returned (OkStatus, db1))"

text \<open>Lines 428-477.\<close>

definition InitMetadataSource :: "'db executor_env \<Rightarrow> MetadataSourceQueryConfig \<Rightarrow> 'db action" where
  "InitMetadataSource E query_config =
     MLMD_RETURN_IF_ERROR (ExecuteQuery_template E (create_type_table query_config) [])
    (MLMD_RETURN_IF_ERROR (ExecuteQuery_template E (create_type_property_table query_config) [])
    (MLMD_RETURN_IF_ERROR (ExecuteQuery_template E (create_parent_type_table query_config) [])
    (MLMD_RETURN_IF_ERROR (ExecuteQuery_template E (create_artifact_table query_config) [])
    (MLMD_RETURN_IF_ERROR (ExecuteQuery_template E (create_artifact_property_table query_config) [])
    (MLMD_RETURN_IF_ERROR (ExecuteQuery_template E (create_execution_table query_config) [])
    (MLMD_RETURN_IF_ERROR (ExecuteQuery_template E (create_execution_property_table query_config) [])
    (MLMD_RETURN_IF_ERROR (ExecuteQuery_template E (create_event_table query_config) [])
    (MLMD_RETURN_IF_ERROR (ExecuteQuery_template E (create_event_path_table query_config) [])
    (MLMD_RETURN_IF_ERROR (ExecuteQuery_template E (create_mlmd_env_table query_config) [])
    (MLMD_RETURN_IF_ERROR (ExecuteQuery_template E (create_context_table query_config) [])
    (MLMD_RETURN_IF_ERROR (ExecuteQuery_template E (create_context_property_table query_config) [])
    (MLMD_RETURN_IF_ERROR (ExecuteQuery_template E (create_parent_context_table query_config) [])
    (MLMD_RETURN_IF_ERROR (ExecuteQuery_template E (create_association_table query_config) [])
    (MLMD_RETURN_IF_ERROR (ExecuteQuery_template E (create_attribution_table query_config) [])
    (MLMD_RETURN_IF_ERROR (create_secondary_indices E (secondary_indices query_config))
    (insert_library_version E query_config))))))))))))))))"

text \<open>\<^verbatim>\<open>absl::StatusCodeToString\<close> and \<^verbatim>\<open>absl::Status::ToString\<close>.\<close>

fun StatusCodeToString :: "StatusCode \<Rightarrow> string" where
  "StatusCodeToString kOk = ''OK''"
| "StatusCodeToString kCancelled = ''CANCELLED''"
| "StatusCodeToString kUnknown = ''UNKNOWN''"
| "StatusCodeToString kInvalidArgument = ''INVALID_ARGUMENT''"
| "StatusCodeToString kDeadlineExceeded = ''DEADLINE_EXCEEDED''"
| "StatusCodeToString kNotFound = ''NOT_FOUND''"
| "StatusCodeToString kAlreadyExists = ''ALREADY_EXISTS''"
| "StatusCodeToString kPermissionDenied = ''PERMISSION_DENIED''"
| "StatusCodeToString kResourceExhausted = ''RESOURCE_EXHAUSTED''"
| "StatusCodeToString kFailedPrecondition = ''FAILED_PRECONDITION''"
| "StatusCodeToString kAborted = ''ABORTED''"
| "StatusCodeToString kOutOfRange = ''OUT_OF_RANGE''"
| "StatusCodeToString kUnimplemented = ''UNIMPLEMENTED''"
| "StatusCodeToString kInternal = ''INTERNAL''"
| "StatusCodeToString kUnavailable = ''UNAVAILABLE''"
| "StatusCodeToString kDataLoss = ''DATA_LOSS''"
| "StatusCodeToString kUnauthenticated = ''UNAUTHENTICATED''"

definition ToString :: "Status \<Rightarrow> string" where
  "ToString s =
     (if ok s then ''OK'' else StatusCodeToString (status_code s) @ '': '' @ status_message s)"

text \<open>Lines 491-506: the fifteen checks with their names, in the order they are made.\<close>

definition table_checks ::
  "'db executor_env \<Rightarrow> MetadataSourceQueryConfig \<Rightarrow> ('db action \<times> string) list" where
  "table_checks E query_config =
     [(CheckTypeTable E, ''type_table''),
      (CheckParentTypeTable E query_config, ''parent_type_table''),
      (CheckTypePropertyTable E, ''type_property_table''),
      (CheckArtifactTable E, ''artifact_table''),
      (CheckArtifactPropertyTable E, ''artifact_property_table''),
      (CheckExecutionTable E, ''execution_table''),
      (CheckExecutionPropertyTable E, ''execution_property_table''),
      (CheckEventTable E, ''event_table''),
      (CheckEventPathTable E, ''event_path_table''),
      (CheckMLMDEnvTable E, ''mlmd_env_table''),
      (CheckContextTable E, ''context_table''),
      (CheckParentContextTable E query_config, ''parent_context_table''),
      (CheckContextPropertyTable E, ''context_property_table''),
      (CheckAssociationTable E, ''association_table''),
      (CheckAttributionTable E, ''attribution_table'')]"

fun run_checks ::
  "('db action \<times> string) list \<Rightarrow> 'db \<Rightarrow> ((Status \<times> string) list \<times> 'db) outcome" where
  "run_checks [] db = Returned ([], db)"
| "run_checks ((check, name) # rest) db =
     (case check db of
        Fatal \<Rightarrow> Fatal
      | Returned (s, db1) \<Rightarrow>
          (case run_checks rest db1 of
             Fatal \<Rightarrow> Fatal
           | Returned (checks, db2) \<Rightarrow> Returned ((s, name) # checks, db2)))"

text \<open>Lines 507-519: the three vectors filled from the checks.\<close>

definition missing_schema_error_messages :: "(Status \<times> string) list \<Rightarrow> string list" where
  "missing_schema_error_messages checks = map (\<lambda>c. ToString (fst c)) (filter (\<lambda>c. \<not> ok (fst c)) checks)"

definition failing_checks :: "(Status \<times> string) list \<Rightarrow> string list" where
  "failing_checks checks = map snd (filter (\<lambda>c. \<not> ok (fst c)) checks)"

definition successful_checks :: "(Status \<times> string) list \<Rightarrow> string list" where
  "successful_checks checks = map snd (filter (\<lambda>c. ok (fst c)) checks)"

text \<open>Lines 490-538: what follows the upgrade.\<close>

definition check_tables_or_init :: "'db executor_env \<Rightarrow> MetadataSourceQueryConfig \<Rightarrow> 'db action" where
  "check_tables_or_init E query_config db =
     (case run_checks (table_checks E query_config) db of
        Fatal \<Rightarrow> Fatal
      | Returned (checks, db1) \<Rightarrow>
          if missing_schema_error_messages checks = [] then Returned (OkStatus, db1)
          else if length checks \<noteq> length (missing_schema_error_messages checks) then
            Returned (AbortedError
              (''There are a subset of tables in MLMD instance. This may be due to ''
               @ ''concurrent connection to the empty database. ''
               @ ''Please retry the connection. checks: '' @ to_string (int (length checks))
               @ '' errors: '' @ to_string (int (length (missing_schema_error_messages checks)))
               @ '', present tables: '' @ StrJoin (successful_checks checks) '', ''
               @ '', missing tables: '' @ StrJoin (failing_checks checks) '', ''
               @ '' Errors: '' @ StrJoin (missing_schema_error_messages checks) [CHR 0x0A]), db1)
          else InitMetadataSource E query_config db1)"

text \<open>Lines 479-538.\<close>

definition InitMetadataSourceIfNotExists ::
  "'db executor_env \<Rightarrow> MetadataSourceQueryConfig \<Rightarrow> bool \<Rightarrow> 'db action" where
  "InitMetadataSourceIfNotExists E query_config enable_upgrade_migration =
     (if query_schema_version_given E then CheckSchemaVersionAlignsWithQueryVersion E
      else MLMD_RETURN_IF_ERROR
             (UpgradeMetadataSourceIfOutOfDate E query_config enable_upgrade_migration)
             (check_tables_or_init E query_config))"

section \<open>Listing node ids\<close>

text \<open>
  Lines 327-329 (\<^verbatim>\<open>Bind\<close> of a span of ids) and 594-624. The template's type argument is
  a value here; \<open>OtherNode\<close> stands for every type but the three node types.
\<close>

definition Bind_ids :: "int list \<Rightarrow> string" where
  "Bind_ids ids = StrJoin (map to_string ids) '', ''"

datatype Node = Artifact | Execution | Context | OtherNode

definition ListNodeIDsUsingOptions ::
  "'db executor_env \<Rightarrow> Node \<Rightarrow> ListOperationOptions \<Rightarrow> int list option \<Rightarrow> RecordSet \<Rightarrow> 'db
     \<Rightarrow> (Status \<times> RecordSet \<times> 'db) outcome" where
  "ListNodeIDsUsingOptions E node options candidate_ids record_set db =
     (if candidate_ids = Some [] then Returned (OkStatus, record_set, db)
      else
        (case (case node of
                 Artifact \<Rightarrow> Some ''SELECT `id` FROM `Artifact` WHERE''
               | Execution \<Rightarrow> Some ''SELECT `id` FROM `Execution` WHERE''
               | Context \<Rightarrow> Some ''SELECT `id` FROM `Context` WHERE''
               | OtherNode \<Rightarrow> None) of
           None \<Rightarrow>
             Returned (InvalidArgumentError ''Invalid Node passed to ListNodeIDsUsingOptions'',
                       record_set, db)
         | Some select \<Rightarrow>
             (case AppendOrderingThresholdClause_fn E options
                     (case candidate_ids of
                        None \<Rightarrow> select
                      | Some ids \<Rightarrow> select @ '' `id` IN ('' @ Bind_ids ids @ '') AND '') of
                (s1, sql1) \<Rightarrow>
                  if \<not> ok s1 then Returned (s1, record_set, db)
                  else
                    (case AppendOrderByClause_fn E options sql1 of
                       (s2, sql2) \<Rightarrow>
                         if \<not> ok s2 then Returned (s2, record_set, db)
                         else
                           (case AppendLimitClause_fn E options sql2 of
                              (s3, sql3) \<Rightarrow>
                                if \<not> ok s3 then Returned (s3, record_set, db)
                                else ExecuteQuery_string_rs E sql3 record_set db)))))"

section \<open>The list operation helper\<close>








text \<open>Modelled from the spec: the hard ceiling of a page, 100.\<close>

definition kDefaultMaxListOperationResultSize :: int where
  "kDefaultMaxListOperationResultSize = 100"

text \<open>
  Modelled from the spec: \<^verbatim>\<open>AppendLimitClause\<close> of the missing
  \<^verbatim>\<open>list_operation_query_helper.cc\<close>. The spec gives the limit twice: as the formula
  min(max_result_size, 100) + 1, and in its scenarios, where a size of 1 gives LIMIT 1 and
  a size of 200 gives LIMIT 101. The scenarios are the tests LimitClause and
  LimitOverMaxClause of \<^verbatim>\<open>list_operation_query_helper_test.cc\<close>, so the model follows
  them: the requested size, capped at one more than the ceiling of 100.
\<close>

definition AppendLimitClause :: "ListOperationOptions \<Rightarrow> string \<Rightarrow> Status \<times> string" where
  "AppendLimitClause options sql_query_clause =
     (if max_result_size options \<le> 0 then
        (InvalidArgumentError
           (''max_result_size must be greater than 0, got: ''
            @ to_string (max_result_size options)), sql_query_clause)
      else
        (OkStatus,
         sql_query_clause @ '' LIMIT ''
         @ to_string (min (max_result_size options) (kDefaultMaxListOperationResultSize + 1))
         @ '' ''))"




section \<open>Migrations and initialization as lists of steps\<close>

text \<open>
  The spec describes a migration as steps taken one after the other. \<open>run_steps\<close> takes
  them in order and stops at the first that ends the process or returns a status that is
  not ok; the states below are what the spec's description amounts to, and the theorems
  compare the loops of the code with them.
\<close>

fun run_steps :: "'db action list \<Rightarrow> 'db action" where
  "run_steps [] db = Returned (OkStatus, db)"
| "run_steps (step # steps) db =
     (case step db of
        Fatal \<Rightarrow> Fatal
      | Returned (s, db') \<Rightarrow> if ok s then run_steps steps db' else Returned (s, db'))"

text \<open>The steps, and after them, if none failed, the rest.\<close>

definition steps_then :: "'db action list \<Rightarrow> 'db action \<Rightarrow> 'db action" where
  "steps_then steps rest db =
     (case run_steps steps db of
        Fatal \<Rightarrow> Fatal
      | Returned (s, db') \<Rightarrow> if ok s then rest db' else Returned (s, db'))"

definition in_context :: "string \<Rightarrow> 'db action \<Rightarrow> 'db action" where
  "in_context context step db =
     (case step db of
        Fatal \<Rightarrow> Fatal
      | Returned (s, db') \<Rightarrow> Returned (if ok s then s else with_context context s, db'))"

definition missing_scheme :: "int \<Rightarrow> 'db action" where
  "missing_scheme v db =
     Returned (InternalError (''Cannot find migration_schemes to version '' @ to_string v), db)"

text \<open>The step to version \<open>v\<close> of an upgrade: every upgrade query, then the version.\<close>

definition upgrade_step ::
  "'db executor_env \<Rightarrow> MetadataSourceQueryConfig \<Rightarrow> int \<Rightarrow> 'db action list" where
  "upgrade_step E query_config v =
     (case migration_schemes query_config v of
        None \<Rightarrow> [missing_scheme v]
      | Some scheme \<Rightarrow>
          map (\<lambda>q. in_context (''Upgrade query failed: '' @ query q) (ExecuteQuery_string E (query q)))
              (upgrade_queries scheme)
          @ [in_context ''Failed to update schema.'' (UpdateSchemaVersion E v)])"

definition upgrade_steps ::
  "'db executor_env \<Rightarrow> MetadataSourceQueryConfig \<Rightarrow> int \<Rightarrow> int \<Rightarrow> 'db action list" where
  "upgrade_steps E query_config db_version lib_version =
     concat (map (upgrade_step E query_config) [db_version + 1..lib_version])"

text \<open>
  The step to version \<open>v\<close> of a downgrade: every downgrade query of the scheme of \<open>v\<close>,
  then the version, unless \<open>v\<close> is 0.
\<close>

definition downgrade_step ::
  "'db executor_env \<Rightarrow> MetadataSourceQueryConfig \<Rightarrow> int \<Rightarrow> 'db action list" where
  "downgrade_step E query_config v =
     (case migration_schemes query_config v of
        None \<Rightarrow> [missing_scheme v]
      | Some scheme \<Rightarrow>
          map (\<lambda>q. in_context ''Failed to migrate existing db; the migration transaction rolls back.''
                     (ExecuteQuery_template E q []))
              (downgrade_queries scheme)
          @ (if v > 0 then
               [in_context ''Failed to migrate existing db; the migration transaction rolls back.''
                  (UpdateSchemaVersion E v)]
             else []))"

definition downgrade_steps ::
  "'db executor_env \<Rightarrow> MetadataSourceQueryConfig \<Rightarrow> int \<Rightarrow> int \<Rightarrow> 'db action list" where
  "downgrade_steps E query_config db_version to_schema_version =
     concat (map (downgrade_step E query_config) (rev [to_schema_version..db_version - 1]))"

text \<open>The tables and the secondary indices of a new database.\<close>

definition create_table_queries :: "MetadataSourceQueryConfig \<Rightarrow> TemplateQuery list" where
  "create_table_queries query_config =
     [create_type_table query_config, create_type_property_table query_config,
      create_parent_type_table query_config, create_artifact_table query_config,
      create_artifact_property_table query_config, create_execution_table query_config,
      create_execution_property_table query_config, create_event_table query_config,
      create_event_path_table query_config, create_mlmd_env_table query_config,
      create_context_table query_config, create_context_property_table query_config,
      create_parent_context_table query_config, create_association_table query_config,
      create_attribution_table query_config]"

definition ignoring_duplicate_index :: "'db action \<Rightarrow> 'db action" where
  "ignoring_duplicate_index step db =
     (case step db of
        Fatal \<Rightarrow> Fatal
      | Returned (s, db') \<Rightarrow>
          Returned (if \<not> ok s \<and> StrContains (status_message s) ''Duplicate key name''
                    then OkStatus else s, db'))"

definition schema_steps :: "'db executor_env \<Rightarrow> MetadataSourceQueryConfig \<Rightarrow> 'db action list" where
  "schema_steps E query_config =
     map (\<lambda>q. ExecuteQuery_template E q []) (create_table_queries query_config)
     @ map (\<lambda>q. ignoring_duplicate_index (ExecuteQuery_template E q [])) (secondary_indices query_config)"

section \<open>An example driver\<close>

text \<open>
  A small database in memory, for concrete instances of the theorems: the tables and
  indices that exist, the rows of \<^verbatim>\<open>MLMDEnv\<close>, and the queries the driver has run, oldest
  first. Its driver understands five forms of query.
\<close>

record example_db =
  tables :: "string list"
  env_rows :: "string list"
  issued :: "string list"

fun has_table :: "string \<Rightarrow> string list \<Rightarrow> bool" where
  "has_table t [] = False"
| "has_table t (x # xs) = (if x = t then True else has_table t xs)"

definition example_source ::
  "string \<Rightarrow> RecordSet \<Rightarrow> example_db \<Rightarrow> Status \<times> RecordSet \<times> example_db" where
  "example_source q record_set db =
     (if q = ''SELECT schema_version'' then
        (if has_table ''MLMDEnv'' (tables db) then
           (OkStatus, record_set\<lparr>records := records record_set @ map (\<lambda>v. [v]) (env_rows db)\<rparr>,
            db\<lparr>issued := issued db @ [q]\<rparr>)
         else (InternalError ''no such table'', record_set, db\<lparr>issued := issued db @ [q]\<rparr>))
      else if starts_with q ''SELECT '' then
        (if has_table (drop 7 q) (tables db) then (OkStatus, record_set, db\<lparr>issued := issued db @ [q]\<rparr>)
         else (InternalError ''no such table'', record_set,
               db\<lparr>issued := issued db @ [q]\<rparr>))
      else if starts_with q ''CREATE TABLE '' then
        (OkStatus, record_set, db\<lparr>tables := tables db @ [drop 13 q], issued := issued db @ [q]\<rparr>)
      else if starts_with q ''CREATE INDEX '' then
        (if has_table (drop 13 q) (tables db) then
           (InternalError (''Duplicate key name '' @ drop 13 q), record_set,
            db\<lparr>issued := issued db @ [q]\<rparr>)
         else (OkStatus, record_set,
               db\<lparr>tables := tables db @ [drop 13 q], issued := issued db @ [q]\<rparr>))
      else if starts_with q ''DROP TABLE '' then
        (OkStatus, record_set,
         db\<lparr>tables := filter (\<lambda>t. t \<noteq> drop 11 q) (tables db), issued := issued db @ [q]\<rparr>)
      else (InternalError ''syntax error'', record_set, db\<lparr>issued := issued db @ [q]\<rparr>))"

definition example_check :: "string \<Rightarrow> example_db action" where
  "example_check t db =
     Returned (if has_table t (tables db) then OkStatus else InternalError ''no such table'', db)"

definition example_env :: "int \<Rightarrow> example_db executor_env" where
  "example_env lib =
     \<lparr>source_ExecuteQuery = example_source,
      SimpleAtoi = map_of [(''0'', 0), (''1'', 1), (''2'', 2), (''3'', 3)],
      DebugString = (\<lambda>record_set. StrJoin (map (\<lambda>r. StrJoin r '','') (records record_set)) '';''),
      GetLibraryVersion = lib,
      query_schema_version_given = False,
      InsertSchemaVersion = (\<lambda>v db.
        if env_rows db = [] then Returned (OkStatus, db\<lparr>env_rows := [to_string v]\<rparr>)
        else Returned (Status kAlreadyExists ''schema_version'', db)),
      UpdateSchemaVersion = (\<lambda>v db. Returned (OkStatus, db\<lparr>env_rows := [to_string v]\<rparr>)),
      CheckSchemaVersionAlignsWithQueryVersion = (\<lambda>db. Returned (OkStatus, db)),
      CheckTypeTable = example_check ''Type'',
      CheckTypePropertyTable = example_check ''TypeProperty'',
      CheckArtifactTable = example_check ''Artifact'',
      CheckArtifactPropertyTable = example_check ''ArtifactProperty'',
      CheckExecutionTable = example_check ''Execution'',
      CheckExecutionPropertyTable = example_check ''ExecutionProperty'',
      CheckEventTable = example_check ''Event'',
      CheckEventPathTable = example_check ''EventPath'',
      CheckMLMDEnvTable = example_check ''MLMDEnv'',
      CheckContextTable = example_check ''Context'',
      CheckContextPropertyTable = example_check ''ContextProperty'',
      CheckAssociationTable = example_check ''Association'',
      CheckAttributionTable = example_check ''Attribution'',
      AppendOrderingThresholdClause_fn = (\<lambda>options sql. (OkStatus, sql @ '' 1 '')),
      AppendOrderByClause_fn = (\<lambda>options sql. (OkStatus, sql)),
      AppendLimitClause_fn = AppendLimitClause\<rparr>"

definition template :: "string \<Rightarrow> TemplateQuery" where
  "template q = \<lparr>query = q, parameter_num = 0\<rparr>"

definition example_config :: "int \<Rightarrow> (int \<rightharpoonup> MigrationScheme) \<Rightarrow> MetadataSourceQueryConfig" where
  "example_config lib schemes =
     \<lparr>schema_version = lib,
      check_mlmd_env_table = template ''SELECT schema_version'',
      check_tables_in_v0_13_2 = template ''SELECT Type'',
      check_parent_type_table = template ''SELECT ParentType'',
      check_parent_context_table = template ''SELECT ParentContext'',
      create_type_table = template ''CREATE TABLE Type'',
      create_type_property_table = template ''CREATE TABLE TypeProperty'',
      create_parent_type_table = template ''CREATE TABLE ParentType'',
      create_artifact_table = template ''CREATE TABLE Artifact'',
      create_artifact_property_table = template ''CREATE TABLE ArtifactProperty'',
      create_execution_table = template ''CREATE TABLE Execution'',
      create_execution_property_table = template ''CREATE TABLE ExecutionProperty'',
      create_event_table = template ''CREATE TABLE Event'',
      create_event_path_table = template ''CREATE TABLE EventPath'',
      create_mlmd_env_table = template ''CREATE TABLE MLMDEnv'',
      create_context_table = template ''CREATE TABLE Context'',
      create_context_property_table = template ''CREATE TABLE ContextProperty'',
      create_parent_context_table = template ''CREATE TABLE ParentContext'',
      create_association_table = template ''CREATE TABLE Association'',
      create_attribution_table = template ''CREATE TABLE Attribution'',
      secondary_indices = [template ''CREATE INDEX idx_artifact_uri''],
      migration_schemes = schemes\<rparr>"

text \<open>Schemes to the versions 0, 1 and 2; version 0 has neither \<^verbatim>\<open>MLMDEnv\<close> nor \<^verbatim>\<open>Context\<close>.\<close>

definition example_schemes :: "int \<rightharpoonup> MigrationScheme" where
  "example_schemes =
     [0 \<mapsto> \<lparr>upgrade_queries = [], downgrade_queries = [template ''DROP TABLE MLMDEnv'']\<rparr>,
      1 \<mapsto> \<lparr>upgrade_queries = [template ''CREATE TABLE MLMDEnv''],
             downgrade_queries = [template ''DROP TABLE Context'']\<rparr>,
      2 \<mapsto> \<lparr>upgrade_queries = [template ''CREATE TABLE Context''], downgrade_queries = []\<rparr>]"

text \<open>The tables of a complete database, in the order of their checks.\<close>

definition example_tables :: "string list" where
  "example_tables =
     [''Type'', ''ParentType'', ''TypeProperty'', ''Artifact'', ''ArtifactProperty'',
      ''Execution'', ''ExecutionProperty'', ''Event'', ''EventPath'', ''MLMDEnv'', ''Context'',
      ''ParentContext'', ''ContextProperty'', ''Association'', ''Attribution'']"

text \<open>A database with the given tables and the given rows in \<^verbatim>\<open>MLMDEnv\<close>; no query has run.\<close>

definition example_db :: "string list \<Rightarrow> string list \<Rightarrow> example_db" where
  "example_db ts rows = \<lparr>tables = ts, env_rows = rows, issued = []\<rparr>"

section \<open>Basic facts\<close>

lemma ok_OkStatus [simp]: "ok OkStatus"
  by (simp add: ok_def OkStatus_def)

lemma ok_with_context [simp]: "ok (with_context c s) = ok s"
  by (simp add: ok_def with_context_def)

lemma not_ok_errors [simp]:
  "\<not> ok (InvalidArgumentError m)" "\<not> ok (NotFoundError m)" "\<not> ok (FailedPreconditionError m)"
  "\<not> ok (AbortedError m)" "\<not> ok (InternalError m)" "\<not> ok (DataLossError m)"
  by (simp_all add: ok_def InvalidArgumentError_def NotFoundError_def FailedPreconditionError_def
        AbortedError_def InternalError_def DataLossError_def)

lemma IsNotFound_not_ok: "IsNotFound s \<Longrightarrow> \<not> ok s"
  by (simp add: IsNotFound_def ok_def)

lemma run_steps_append:
  "run_steps (xs @ ys) db =
     (case run_steps xs db of
        Fatal \<Rightarrow> Fatal
      | Returned (s, db') \<Rightarrow> if ok s then run_steps ys db' else Returned (s, db'))"
  by (induction xs arbitrary: db) (auto split: outcome.splits)

lemma run_upgrade_queries_steps:
  "run_upgrade_queries E qs db =
     run_steps (map (\<lambda>q. in_context (''Upgrade query failed: '' @ query q)
                            (ExecuteQuery_string E (query q))) qs) db"
  by (induction qs arbitrary: db) (auto simp: in_context_def split: outcome.splits)

lemma upgrade_steps_rec:
  "v < lib \<Longrightarrow> upgrade_steps E qc v lib = upgrade_step E qc (v + 1) @ upgrade_steps E qc (v + 1) lib"
  by (simp add: upgrade_steps_def upto_rec1 [of "v + 1" lib])

lemma upgrade_steps_done: "\<not> v < lib \<Longrightarrow> upgrade_steps E qc v lib = []"
  by (simp add: upgrade_steps_def)

lemma upgrade_loop_steps:
  "upgrade_loop E qc v lib db = run_steps (upgrade_steps E qc v lib) db"
proof (induction E qc v lib db rule: upgrade_loop.induct)
  case (1 E qc v lib db)
  show ?case
  proof (cases "v < lib")
    case False
    then show ?thesis
      by (simp add: upgrade_loop.simps [of E qc v lib db] upgrade_steps_done)
  next
    case True
    show ?thesis
    proof (cases "migration_schemes qc (v + 1)")
      case None
      with True show ?thesis
        by (simp add: upgrade_loop.simps [of E qc v lib db] upgrade_steps_rec upgrade_step_def
              run_steps_append missing_scheme_def)
    next
      case (Some scheme)
      with True 1 show ?thesis
        by (simp add: upgrade_loop.simps [of E qc v lib db] upgrade_steps_rec upgrade_step_def
              run_steps_append run_upgrade_queries_steps in_context_def
              split: outcome.splits)
    qed
  qed
qed


lemma run_downgrade_queries_steps:
  "run_downgrade_queries E qs db =
     run_steps (map (\<lambda>q. in_context ''Failed to migrate existing db; the migration transaction rolls back.''
                            (ExecuteQuery_template E q [])) qs) db"
  by (induction qs arbitrary: db) (auto simp: in_context_def split: outcome.splits)

lemma downgrade_steps_rec:
  "t < v \<Longrightarrow> downgrade_steps E qc v t = downgrade_step E qc (v - 1) @ downgrade_steps E qc (v - 1) t"
  by (simp add: downgrade_steps_def upto_rec2 [of t "v - 1"])

lemma downgrade_steps_done: "\<not> t < v \<Longrightarrow> downgrade_steps E qc v t = []"
  by (simp add: downgrade_steps_def)

lemma downgrade_loop_steps:
  "downgrade_loop E qc v t db = run_steps (downgrade_steps E qc v t) db"
proof (induction E qc v t db rule: downgrade_loop.induct)
  case (1 E qc v t db)
  show ?case
  proof (cases "t < v")
    case False
    then show ?thesis
      by (simp add: downgrade_loop.simps [of E qc v t db] downgrade_steps_done)
  next
    case True
    show ?thesis
    proof (cases "migration_schemes qc (v - 1)")
      case None
      with True show ?thesis
        by (simp add: downgrade_loop.simps [of E qc v t db] downgrade_steps_rec downgrade_step_def
              run_steps_append missing_scheme_def)
    next
      case (Some scheme)
      with True 1 show ?thesis
        by (simp add: downgrade_loop.simps [of E qc v t db] downgrade_steps_rec downgrade_step_def
              run_steps_append run_downgrade_queries_steps in_context_def
              split: outcome.splits)
    qed
  qed
qed

lemma run_steps_ok_status:
  "run_steps steps db = Returned (s, db') \<Longrightarrow> ok s \<Longrightarrow> s = OkStatus"
  by (induction steps arbitrary: db) (auto split: outcome.splits if_splits)

lemma upgrade_steps_split:
  assumes "db_version < v" "v \<le> lib"
  shows "upgrade_steps E qc db_version lib =
           upgrade_steps E qc db_version (v - 1) @ upgrade_step E qc v @ upgrade_steps E qc v lib"
  using assms by (simp add: upgrade_steps_def upto_split3 [of "db_version + 1" v lib])

section \<open>Upgrade, one version at a time\<close>

text \<open>
  C1. Let the version probe return the database version. If it is greater than the
  library version, \<open>UpgradeMetadataSourceIfOutOfDate\<close> returns FailedPrecondition; if
  it is smaller and migration is disabled, it returns FailedPrecondition; if it is
  smaller and migration is enabled, it takes the steps to the versions from the database
  version + 1 up to the library version in this order, each step being the upgrade queries
  of that version's scheme in catalog order and then \<open>UpdateSchemaVersion\<close> of that
  version, and stops at the first step that fails. A version whose scheme is missing, once
  the steps before it have succeeded, gives Internal.
\<close>

theorem UpgradeMetadataSourceIfOutOfDate_steps:
  assumes "GetSchemaVersion E query_config 0 db = Returned (OkStatus, db_version, db1)"
  shows
    "(GetLibraryVersion E < db_version \<longrightarrow>
        (\<exists>m. UpgradeMetadataSourceIfOutOfDate E query_config enable_migration db
              = Returned (FailedPreconditionError m, db1)))
     \<and> (db_version < GetLibraryVersion E \<and> \<not> enable_migration \<longrightarrow>
        (\<exists>m. UpgradeMetadataSourceIfOutOfDate E query_config enable_migration db
              = Returned (FailedPreconditionError m, db1)))
     \<and> (db_version < GetLibraryVersion E \<and> enable_migration \<longrightarrow>
        UpgradeMetadataSourceIfOutOfDate E query_config enable_migration db
          = run_steps (upgrade_steps E query_config db_version (GetLibraryVersion E)) db1)
     \<and> (\<forall>v db2. db_version < v \<and> v \<le> GetLibraryVersion E \<and> enable_migration
           \<and> migration_schemes query_config v = None
           \<and> run_steps (upgrade_steps E query_config db_version (v - 1)) db1 = Returned (OkStatus, db2)
         \<longrightarrow> UpgradeMetadataSourceIfOutOfDate E query_config enable_migration db
               = Returned (InternalError
                   (''Cannot find migration_schemes to version '' @ to_string v), db2))"
proof -
  have probe: "\<not> IsNotFound OkStatus"
    by (simp add: IsNotFound_def OkStatus_def)
  have loop: "db_version < GetLibraryVersion E \<Longrightarrow> enable_migration \<Longrightarrow>
      UpgradeMetadataSourceIfOutOfDate E query_config enable_migration db
        = run_steps (upgrade_steps E query_config db_version (GetLibraryVersion E)) db1"
    using assms probe
    by (simp add: UpgradeMetadataSourceIfOutOfDate_def upgrade_from_version_def IsCompatible_def
          upgrade_loop_steps)
  have greater: "GetLibraryVersion E < db_version \<Longrightarrow>
      \<exists>m. UpgradeMetadataSourceIfOutOfDate E query_config enable_migration db
            = Returned (FailedPreconditionError m, db1)"
    using assms probe
    by (auto simp add: UpgradeMetadataSourceIfOutOfDate_def upgrade_from_version_def IsCompatible_def)
  have disabled: "db_version < GetLibraryVersion E \<Longrightarrow> \<not> enable_migration \<Longrightarrow>
      \<exists>m. UpgradeMetadataSourceIfOutOfDate E query_config enable_migration db
            = Returned (FailedPreconditionError m, db1)"
    using assms probe
    by (auto simp add: UpgradeMetadataSourceIfOutOfDate_def upgrade_from_version_def IsCompatible_def)
  have missing: "UpgradeMetadataSourceIfOutOfDate E query_config enable_migration db
               = Returned (InternalError
                   (''Cannot find migration_schemes to version '' @ to_string v), db2)"
    if "db_version < v" "v \<le> GetLibraryVersion E" "enable_migration"
       "migration_schemes query_config v = None"
       "run_steps (upgrade_steps E query_config db_version (v - 1)) db1 = Returned (OkStatus, db2)"
    for v db2
  proof -
    have "db_version < GetLibraryVersion E" using that by simp
    then show ?thesis
      using that loop
      by (simp add: upgrade_steps_split [of db_version v] run_steps_append upgrade_step_def
            missing_scheme_def)
  qed
  show ?thesis
    using loop greater disabled missing by blast
qed

theorem UpgradeMetadataSourceIfOutOfDate_steps_witness:
  "GetSchemaVersion (example_env 2) (example_config 2 example_schemes) 0 (example_db [''Type'', ''MLMDEnv'', ''Context''] [''3''])
     = Returned (OkStatus, 3, \<lparr>tables = [''Type'', ''MLMDEnv'', ''Context''], env_rows = [''3''], issued = [''SELECT schema_version'']\<rparr>)
   \<and> GetLibraryVersion (example_env 2) < 3
   \<and> (\<exists>m. UpgradeMetadataSourceIfOutOfDate (example_env 2) (example_config 2 example_schemes) True (example_db [''Type'', ''MLMDEnv'', ''Context''] [''3''])
          = Returned (FailedPreconditionError m, \<lparr>tables = [''Type'', ''MLMDEnv'', ''Context''], env_rows = [''3''], issued = [''SELECT schema_version'']\<rparr>))
   \<and> GetSchemaVersion (example_env 2) (example_config 2 example_schemes) 0 (example_db [''Type''] [])
     = Returned (OkStatus, 0, \<lparr>tables = [''Type''], env_rows = [], issued = [''SELECT schema_version'', ''SELECT Type'']\<rparr>)
   \<and> 0 < GetLibraryVersion (example_env 2)
   \<and> (\<exists>m. UpgradeMetadataSourceIfOutOfDate (example_env 2) (example_config 2 example_schemes) False (example_db [''Type''] [])
          = Returned (FailedPreconditionError m, \<lparr>tables = [''Type''], env_rows = [], issued = [''SELECT schema_version'', ''SELECT Type'']\<rparr>))
   \<and> UpgradeMetadataSourceIfOutOfDate (example_env 2) (example_config 2 example_schemes) True (example_db [''Type''] [])
     = run_steps (upgrade_steps (example_env 2) (example_config 2 example_schemes) 0 (GetLibraryVersion (example_env 2)))
         \<lparr>tables = [''Type''], env_rows = [], issued = [''SELECT schema_version'', ''SELECT Type'']\<rparr>
   \<and> run_steps (upgrade_steps (example_env 2) (example_config 2 example_schemes) 0 (GetLibraryVersion (example_env 2)))
         \<lparr>tables = [''Type''], env_rows = [], issued = [''SELECT schema_version'', ''SELECT Type'']\<rparr>
     = Returned (OkStatus,
           \<lparr>tables = [''Type'', ''MLMDEnv'', ''Context''], env_rows = [''2''],
            issued = [''SELECT schema_version'', ''SELECT Type'', ''CREATE TABLE MLMDEnv'',
                      ''CREATE TABLE Context'']\<rparr>)
   \<and> GetSchemaVersion (example_env 3) (example_config 3 example_schemes) 0 (example_db [''Type'', ''MLMDEnv''] [''1''])
     = Returned (OkStatus, 1, \<lparr>tables = [''Type'', ''MLMDEnv''], env_rows = [''1''], issued = [''SELECT schema_version'']\<rparr>)
   \<and> (1::int) < 3
   \<and> 3 \<le> GetLibraryVersion (example_env 3)
   \<and> migration_schemes (example_config 3 example_schemes) 3 = None
   \<and> run_steps (upgrade_steps (example_env 3) (example_config 3 example_schemes) 1 (3 - 1))
         \<lparr>tables = [''Type'', ''MLMDEnv''], env_rows = [''1''], issued = [''SELECT schema_version'']\<rparr>
     = Returned (OkStatus,
           \<lparr>tables = [''Type'', ''MLMDEnv'', ''Context''], env_rows = [''2''],
            issued = [''SELECT schema_version'', ''CREATE TABLE Context'']\<rparr>)
   \<and> UpgradeMetadataSourceIfOutOfDate (example_env 3) (example_config 3 example_schemes) True (example_db [''Type'', ''MLMDEnv''] [''1''])
     = Returned (InternalError (''Cannot find migration_schemes to version '' @ to_string 3),
           \<lparr>tables = [''Type'', ''MLMDEnv'', ''Context''], env_rows = [''2''],
            issued = [''SELECT schema_version'', ''CREATE TABLE Context'']\<rparr>)"
proof -
  have v3: "GetSchemaVersion (example_env 2) (example_config 2 example_schemes) 0 (example_db [''Type'', ''MLMDEnv'', ''Context''] [''3''])
     = Returned (OkStatus, 3, \<lparr>tables = [''Type'', ''MLMDEnv'', ''Context''], env_rows = [''3''], issued = [''SELECT schema_version'']\<rparr>)"
    by code_simp
  have v0: "GetSchemaVersion (example_env 2) (example_config 2 example_schemes) 0 (example_db [''Type''] [])
     = Returned (OkStatus, 0, \<lparr>tables = [''Type''], env_rows = [], issued = [''SELECT schema_version'', ''SELECT Type'']\<rparr>)"
    by code_simp
  have v1: "GetSchemaVersion (example_env 3) (example_config 3 example_schemes) 0 (example_db [''Type'', ''MLMDEnv''] [''1''])
     = Returned (OkStatus, 1, \<lparr>tables = [''Type'', ''MLMDEnv''], env_rows = [''1''], issued = [''SELECT schema_version'']\<rparr>)"
    by code_simp
  have g: "GetLibraryVersion (example_env 2) < 3"
    by (simp add: example_env_def)
  have l: "0 < GetLibraryVersion (example_env 2)"
    by (simp add: example_env_def)
  have lt: "(1::int) < 3"
    by simp
  have le: "3 \<le> GetLibraryVersion (example_env 3)"
    by (simp add: example_env_def)
  have none: "migration_schemes (example_config 3 example_schemes) 3 = None"
    by (simp add: example_config_def example_schemes_def)
  have run02: "run_steps (upgrade_steps (example_env 2) (example_config 2 example_schemes) 0 (GetLibraryVersion (example_env 2)))
         \<lparr>tables = [''Type''], env_rows = [], issued = [''SELECT schema_version'', ''SELECT Type'']\<rparr>
     = Returned (OkStatus,
           \<lparr>tables = [''Type'', ''MLMDEnv'', ''Context''], env_rows = [''2''],
            issued = [''SELECT schema_version'', ''SELECT Type'', ''CREATE TABLE MLMDEnv'',
                      ''CREATE TABLE Context'']\<rparr>)"
    by code_simp
  have run12: "run_steps (upgrade_steps (example_env 3) (example_config 3 example_schemes) 1 (3 - 1))
         \<lparr>tables = [''Type'', ''MLMDEnv''], env_rows = [''1''], issued = [''SELECT schema_version'']\<rparr>
     = Returned (OkStatus,
           \<lparr>tables = [''Type'', ''MLMDEnv'', ''Context''], env_rows = [''2''],
            issued = [''SELECT schema_version'', ''CREATE TABLE Context'']\<rparr>)"
    by code_simp
  have a: "(\<exists>m. UpgradeMetadataSourceIfOutOfDate (example_env 2) (example_config 2 example_schemes) True (example_db [''Type'', ''MLMDEnv'', ''Context''] [''3''])
          = Returned (FailedPreconditionError m, \<lparr>tables = [''Type'', ''MLMDEnv'', ''Context''], env_rows = [''3''], issued = [''SELECT schema_version'']\<rparr>))"
    using UpgradeMetadataSourceIfOutOfDate_steps [OF v3, of True] g by blast
  have b: "(\<exists>m. UpgradeMetadataSourceIfOutOfDate (example_env 2) (example_config 2 example_schemes) False (example_db [''Type''] [])
          = Returned (FailedPreconditionError m, \<lparr>tables = [''Type''], env_rows = [], issued = [''SELECT schema_version'', ''SELECT Type'']\<rparr>))"
    using UpgradeMetadataSourceIfOutOfDate_steps [OF v0, of False] l by blast
  have c: "UpgradeMetadataSourceIfOutOfDate (example_env 2) (example_config 2 example_schemes) True (example_db [''Type''] [])
     = run_steps (upgrade_steps (example_env 2) (example_config 2 example_schemes) 0 (GetLibraryVersion (example_env 2)))
         \<lparr>tables = [''Type''], env_rows = [], issued = [''SELECT schema_version'', ''SELECT Type'']\<rparr>"
    using UpgradeMetadataSourceIfOutOfDate_steps [OF v0, of True] l by blast
  have d: "UpgradeMetadataSourceIfOutOfDate (example_env 3) (example_config 3 example_schemes) True (example_db [''Type'', ''MLMDEnv''] [''1''])
     = Returned (InternalError (''Cannot find migration_schemes to version '' @ to_string 3),
           \<lparr>tables = [''Type'', ''MLMDEnv'', ''Context''], env_rows = [''2''],
            issued = [''SELECT schema_version'', ''CREATE TABLE Context'']\<rparr>)"
    using UpgradeMetadataSourceIfOutOfDate_steps [OF v1, of True] lt le none run12 by blast
  show ?thesis
    using v3 g a v0 l b c run02 v1 lt le none run12 d by blast
qed

section \<open>Downgrade, one version at a time\<close>

text \<open>
  A target within range on a database that is newer than the library: the result is
  FailedPrecondition, with the database as the probe left it. The steps from version 3
  down to version 1 would have dropped a table and written version 1.
\<close>

theorem DowngradeMetadataSource_newer_database:
  "(0::int) \<le> 1 \<and> 1 \<le> schema_version (example_config 2 example_schemes)
   \<and> GetSchemaVersion (example_env 2) (example_config 2 example_schemes) 0 (example_db [''Type'', ''MLMDEnv'', ''Context''] [''3''])
     = Returned (OkStatus, 3, \<lparr>tables = [''Type'', ''MLMDEnv'', ''Context''], env_rows = [''3''],
        issued = [''SELECT schema_version'']\<rparr>)
   \<and> DowngradeMetadataSource (example_env 2) (example_config 2 example_schemes) 1 (example_db [''Type'', ''MLMDEnv'', ''Context''] [''3''])
     = Returned (FailedPreconditionError
         ''MLMD database version 3 is greater than library version 2. The current library does not know how to downgrade it. Please upgrade the library to downgrade the schema.'',
       \<lparr>tables = [''Type'', ''MLMDEnv'', ''Context''], env_rows = [''3''],
        issued = [''SELECT schema_version'']\<rparr>)
   \<and> run_steps (downgrade_steps (example_env 2) (example_config 2 example_schemes) 3 1)
       \<lparr>tables = [''Type'', ''MLMDEnv'', ''Context''], env_rows = [''3''],
        issued = [''SELECT schema_version'']\<rparr>
     = Returned (OkStatus,
       \<lparr>tables = [''Type'', ''MLMDEnv''], env_rows = [''1''],
        issued = [''SELECT schema_version'', ''DROP TABLE Context'']\<rparr>)"
  by code_simp

text \<open>
  C3, as amended. \<open>DowngradeMetadataSource\<close> returns InvalidArgument for a target below 0
  or above the library version, before any query. Otherwise, with the database at a
  version greater than the library version, it returns FailedPrecondition and takes no
  step; with the database at a version that is at most the library version, it takes the
  steps to the versions from the database version - 1 down to the target in this order,
  each step being the downgrade queries of that version's scheme and then
  \<open>UpdateSchemaVersion\<close> of that version when it is greater than 0: the step to version 0
  writes no version.
\<close>

theorem DowngradeMetadataSource_steps:
  "(to_schema_version < 0 \<or> schema_version query_config < to_schema_version \<longrightarrow>
      (\<exists>m. DowngradeMetadataSource E query_config to_schema_version db
            = Returned (InvalidArgumentError m, db)))
   \<and> (0 \<le> to_schema_version \<and> to_schema_version \<le> schema_version query_config
       \<and> GetSchemaVersion E query_config 0 db = Returned (OkStatus, db_version, db1)
       \<and> schema_version query_config < db_version \<longrightarrow>
      (\<exists>m. DowngradeMetadataSource E query_config to_schema_version db
            = Returned (FailedPreconditionError m, db1)))
   \<and> (0 \<le> to_schema_version \<and> to_schema_version \<le> schema_version query_config
       \<and> GetSchemaVersion E query_config 0 db = Returned (OkStatus, db_version, db1)
       \<and> db_version \<le> schema_version query_config \<longrightarrow>
      DowngradeMetadataSource E query_config to_schema_version db
        = run_steps (downgrade_steps E query_config db_version to_schema_version) db1)"
proof -
  have probe: "\<not> IsNotFound OkStatus"
    by (simp add: IsNotFound_def OkStatus_def)
  have range: "to_schema_version < 0 \<or> schema_version query_config < to_schema_version \<Longrightarrow>
      \<exists>m. DowngradeMetadataSource E query_config to_schema_version db
            = Returned (InvalidArgumentError m, db)"
    by (auto simp add: DowngradeMetadataSource_def)
  have newer: "\<exists>m. DowngradeMetadataSource E query_config to_schema_version db
            = Returned (FailedPreconditionError m, db1)"
    if "0 \<le> to_schema_version" "to_schema_version \<le> schema_version query_config"
       "GetSchemaVersion E query_config 0 db = Returned (OkStatus, db_version, db1)"
       "schema_version query_config < db_version"
    using that probe by (auto simp add: DowngradeMetadataSource_def)
  have loop: "DowngradeMetadataSource E query_config to_schema_version db
        = run_steps (downgrade_steps E query_config db_version to_schema_version) db1"
    if "0 \<le> to_schema_version" "to_schema_version \<le> schema_version query_config"
       "GetSchemaVersion E query_config 0 db = Returned (OkStatus, db_version, db1)"
       "db_version \<le> schema_version query_config"
    using that probe by (simp add: DowngradeMetadataSource_def downgrade_loop_steps)
  show ?thesis
    using range newer loop by blast
qed

theorem DowngradeMetadataSource_steps_witness:
  "(- 1 :: int) < 0
   \<and> (\<exists>m. DowngradeMetadataSource (example_env 2) (example_config 2 example_schemes) (- 1) (example_db [''Type'', ''MLMDEnv'', ''Context''] [''2''])
          = Returned (InvalidArgumentError m, (example_db [''Type'', ''MLMDEnv'', ''Context''] [''2''])))
   \<and> schema_version (example_config 2 example_schemes) < 3
   \<and> (\<exists>m. DowngradeMetadataSource (example_env 2) (example_config 2 example_schemes) 3 (example_db [''Type'', ''MLMDEnv'', ''Context''] [''2''])
          = Returned (InvalidArgumentError m, (example_db [''Type'', ''MLMDEnv'', ''Context''] [''2''])))
   \<and> (0::int) \<le> 0
   \<and> 0 \<le> schema_version (example_config 2 example_schemes)
   \<and> GetSchemaVersion (example_env 2) (example_config 2 example_schemes) 0 (example_db [''Type'', ''MLMDEnv'', ''Context''] [''2''])
     = Returned (OkStatus, 2, \<lparr>tables = [''Type'', ''MLMDEnv'', ''Context''], env_rows = [''2''], issued = [''SELECT schema_version'']\<rparr>)
   \<and> 2 \<le> schema_version (example_config 2 example_schemes)
   \<and> DowngradeMetadataSource (example_env 2) (example_config 2 example_schemes) 0 (example_db [''Type'', ''MLMDEnv'', ''Context''] [''2''])
     = run_steps (downgrade_steps (example_env 2) (example_config 2 example_schemes) 2 0)
         \<lparr>tables = [''Type'', ''MLMDEnv'', ''Context''], env_rows = [''2''], issued = [''SELECT schema_version'']\<rparr>
   \<and> run_steps (downgrade_steps (example_env 2) (example_config 2 example_schemes) 2 0)
         \<lparr>tables = [''Type'', ''MLMDEnv'', ''Context''], env_rows = [''2''], issued = [''SELECT schema_version'']\<rparr>
     = Returned (OkStatus,
           \<lparr>tables = [''Type''], env_rows = [''1''],
            issued = [''SELECT schema_version'', ''DROP TABLE Context'', ''DROP TABLE MLMDEnv'']\<rparr>)
   \<and> (0::int) \<le> 1 \<and> 1 \<le> schema_version (example_config 2 example_schemes)
   \<and> GetSchemaVersion (example_env 2) (example_config 2 example_schemes) 0 (example_db [''Type'', ''MLMDEnv'', ''Context''] [''3''])
     = Returned (OkStatus, 3, \<lparr>tables = [''Type'', ''MLMDEnv'', ''Context''], env_rows = [''3''],
        issued = [''SELECT schema_version'']\<rparr>)
   \<and> schema_version (example_config 2 example_schemes) < 3
   \<and> (\<exists>m. DowngradeMetadataSource (example_env 2) (example_config 2 example_schemes) 1 (example_db [''Type'', ''MLMDEnv'', ''Context''] [''3''])
          = Returned (FailedPreconditionError m, \<lparr>tables = [''Type'', ''MLMDEnv'', ''Context''], env_rows = [''3''],
        issued = [''SELECT schema_version'']\<rparr>))"
proof -
  have neg: "(- 1 :: int) < 0"
    by simp
  have big: "schema_version (example_config 2 example_schemes) < 3"
    by (simp add: example_config_def)
  have lo: "(0::int) \<le> 0"
    by simp
  have hi: "0 \<le> schema_version (example_config 2 example_schemes)"
    by (simp add: example_config_def)
  have dl: "2 \<le> schema_version (example_config 2 example_schemes)"
    by (simp add: example_config_def)
  have v2: "GetSchemaVersion (example_env 2) (example_config 2 example_schemes) 0 (example_db [''Type'', ''MLMDEnv'', ''Context''] [''2''])
     = Returned (OkStatus, 2, \<lparr>tables = [''Type'', ''MLMDEnv'', ''Context''], env_rows = [''2''], issued = [''SELECT schema_version'']\<rparr>)"
    by code_simp
  have run20: "run_steps (downgrade_steps (example_env 2) (example_config 2 example_schemes) 2 0)
         \<lparr>tables = [''Type'', ''MLMDEnv'', ''Context''], env_rows = [''2''], issued = [''SELECT schema_version'']\<rparr>
     = Returned (OkStatus,
           \<lparr>tables = [''Type''], env_rows = [''1''],
            issued = [''SELECT schema_version'', ''DROP TABLE Context'', ''DROP TABLE MLMDEnv'']\<rparr>)"
    by code_simp
  have rneg: "(\<exists>m. DowngradeMetadataSource (example_env 2) (example_config 2 example_schemes) (- 1) (example_db [''Type'', ''MLMDEnv'', ''Context''] [''2''])
          = Returned (InvalidArgumentError m, (example_db [''Type'', ''MLMDEnv'', ''Context''] [''2''])))"
    using DowngradeMetadataSource_steps [of "- 1" "example_config 2 example_schemes" "example_env 2" "example_db [''Type'', ''MLMDEnv'', ''Context''] [''2'']"] neg by blast
  have rbig: "(\<exists>m. DowngradeMetadataSource (example_env 2) (example_config 2 example_schemes) 3 (example_db [''Type'', ''MLMDEnv'', ''Context''] [''2''])
          = Returned (InvalidArgumentError m, (example_db [''Type'', ''MLMDEnv'', ''Context''] [''2''])))"
    using DowngradeMetadataSource_steps [of 3 "example_config 2 example_schemes" "example_env 2" "example_db [''Type'', ''MLMDEnv'', ''Context''] [''2'']"] big by blast
  have r: "DowngradeMetadataSource (example_env 2) (example_config 2 example_schemes) 0 (example_db [''Type'', ''MLMDEnv'', ''Context''] [''2''])
     = run_steps (downgrade_steps (example_env 2) (example_config 2 example_schemes) 2 0)
         \<lparr>tables = [''Type'', ''MLMDEnv'', ''Context''], env_rows = [''2''], issued = [''SELECT schema_version'']\<rparr>"
    using DowngradeMetadataSource_steps [of 0 "example_config 2 example_schemes" "example_env 2" "example_db [''Type'', ''MLMDEnv'', ''Context''] [''2'']"] lo hi v2 dl by blast
  have lo1: "(0::int) \<le> 1"
    by simp
  have hi1: "1 \<le> schema_version (example_config 2 example_schemes)"
    by (simp add: example_config_def)
  have v3: "GetSchemaVersion (example_env 2) (example_config 2 example_schemes) 0 (example_db [''Type'', ''MLMDEnv'', ''Context''] [''3''])
     = Returned (OkStatus, 3, \<lparr>tables = [''Type'', ''MLMDEnv'', ''Context''], env_rows = [''3''],
        issued = [''SELECT schema_version'']\<rparr>)"
    by code_simp
  have above: "schema_version (example_config 2 example_schemes) < 3"
    by (simp add: example_config_def)
  have rnew: "(\<exists>m. DowngradeMetadataSource (example_env 2) (example_config 2 example_schemes) 1 (example_db [''Type'', ''MLMDEnv'', ''Context''] [''3''])
          = Returned (FailedPreconditionError m, \<lparr>tables = [''Type'', ''MLMDEnv'', ''Context''], env_rows = [''3''],
        issued = [''SELECT schema_version'']\<rparr>))"
    using DowngradeMetadataSource_steps [of 1 "example_config 2 example_schemes" "example_env 2" "example_db [''Type'', ''MLMDEnv'', ''Context''] [''3'']" 3 "\<lparr>tables = [''Type'', ''MLMDEnv'', ''Context''], env_rows = [''3''],
        issued = [''SELECT schema_version'']\<rparr>"] lo1 hi1 v3 above by blast
  show ?thesis
    using neg rneg big rbig lo hi v2 dl r run20 lo1 hi1 v3 above rnew by blast
qed

section \<open>Downgrade of an empty database\<close>

text \<open>
  C10. A target version within 0 and the library version, on a database whose version
  probe reports NotFound: \<open>DowngradeMetadataSource\<close> returns InvalidArgument, and the
  database is left as the probe left it, so no downgrade query and no version update
  has run.
\<close>

theorem DowngradeMetadataSource_empty_db:
  assumes "0 \<le> to_schema_version" "to_schema_version \<le> schema_version query_config"
    and "GetSchemaVersion E query_config 0 db = Returned (s, db_version, db1)"
    and "IsNotFound s"
  shows "DowngradeMetadataSource E query_config to_schema_version db
           = Returned (InvalidArgumentError
               ''Empty database is given. Downgrade operation is not needed.'', db1)"
  using assms by (simp add: DowngradeMetadataSource_def)

theorem DowngradeMetadataSource_empty_db_witness:
  "(0::int) \<le> 1 \<and> 1 \<le> schema_version (example_config 2 example_schemes)
   \<and> GetSchemaVersion (example_env 2) (example_config 2 example_schemes) 0 (example_db [] [])
       = Returned (NotFoundError ''it looks an empty db is given.'', 0,
                   (example_db [] [])\<lparr>issued := [''SELECT schema_version'', ''SELECT Type'']\<rparr>)
   \<and> IsNotFound (NotFoundError ''it looks an empty db is given.'')
   \<and> DowngradeMetadataSource (example_env 2) (example_config 2 example_schemes) 1 (example_db [] [])
       = Returned (InvalidArgumentError ''Empty database is given. Downgrade operation is not needed.'',
                   (example_db [] [])\<lparr>issued := [''SELECT schema_version'', ''SELECT Type'']\<rparr>)"
proof -
  have h1: "(0::int) \<le> 1" by simp
  have h2: "1 \<le> schema_version (example_config 2 example_schemes)"
    by (simp add: example_config_def)
  have h3: "GetSchemaVersion (example_env 2) (example_config 2 example_schemes) 0 (example_db [] [])
       = Returned (NotFoundError ''it looks an empty db is given.'', 0,
                   (example_db [] [])\<lparr>issued := [''SELECT schema_version'', ''SELECT Type'']\<rparr>)"
    by code_simp
  have h4: "IsNotFound (NotFoundError ''it looks an empty db is given.'')"
    by (simp add: IsNotFound_def NotFoundError_def)
  from DowngradeMetadataSource_empty_db [OF h1 h2 h3 h4] h1 h2 h3 h4 show ?thesis
    by simp
qed

section \<open>The version probe\<close>

text \<open>
  C2. \<open>GetSchemaVersion\<close>, by the result of the query \<open>check_mlmd_env_table\<close>: when it
  succeeds, no row gives Aborted, more than one row gives DataLoss, and exactly one row
  gives the version its first cell parses to; when it fails, the query
  \<open>check_tables_in_v0_13_2\<close> is run, and gives version 0 when it succeeds and NotFound when
  it fails. Every error leaves the caller's \<open>db_version\<close> as it was.
\<close>

theorem GetSchemaVersion_cases:
  assumes "ExecuteQuery E (check_mlmd_env_table query_config) [] empty_RecordSet db
             = Returned (s1, record_set, db1)"
  shows
    "(ok s1 \<and> length (records record_set) = 0 \<longrightarrow>
        (\<exists>m. GetSchemaVersion E query_config db_version db = Returned (AbortedError m, db_version, db1)))
     \<and> (ok s1 \<and> 1 < length (records record_set) \<longrightarrow>
        (\<exists>m. GetSchemaVersion E query_config db_version db = Returned (DataLossError m, db_version, db1)))
     \<and> (ok s1 \<and> records record_set = [cell # cells] \<and> SimpleAtoi E cell = Some v \<longrightarrow>
        GetSchemaVersion E query_config db_version db = Returned (OkStatus, v, db1))
     \<and> (\<not> ok s1
         \<and> ExecuteQuery E (check_tables_in_v0_13_2 query_config) [] record_set db1
             = Returned (s2, record_set2, db2)
         \<and> ok s2 \<longrightarrow>
        GetSchemaVersion E query_config db_version db = Returned (OkStatus, 0, db2))
     \<and> (\<not> ok s1
         \<and> ExecuteQuery E (check_tables_in_v0_13_2 query_config) [] record_set db1
             = Returned (s2, record_set2, db2)
         \<and> \<not> ok s2 \<longrightarrow>
        (\<exists>m. GetSchemaVersion E query_config db_version db = Returned (NotFoundError m, db_version, db2)))"
  using assms by (auto simp add: GetSchemaVersion_def)

theorem GetSchemaVersion_cases_witness:
  "ExecuteQuery (example_env 2) (check_mlmd_env_table (example_config 2 example_schemes)) [] empty_RecordSet (example_db [''MLMDEnv''] [])
     = Returned (OkStatus, \<lparr>column_names = [], records = []\<rparr>, \<lparr>tables = [''MLMDEnv''], env_rows = [], issued = [''SELECT schema_version'']\<rparr>)
   \<and> ok OkStatus \<and> length (records \<lparr>column_names = [], records = []\<rparr>) = 0
   \<and> (\<exists>m. GetSchemaVersion (example_env 2) (example_config 2 example_schemes) 7 (example_db [''MLMDEnv''] [])
          = Returned (AbortedError m, 7, \<lparr>tables = [''MLMDEnv''], env_rows = [], issued = [''SELECT schema_version'']\<rparr>))
   \<and> ExecuteQuery (example_env 2) (check_mlmd_env_table (example_config 2 example_schemes)) [] empty_RecordSet (example_db [''MLMDEnv''] [''1'', ''2''])
     = Returned (OkStatus, \<lparr>column_names = [], records = [[''1''], [''2'']]\<rparr>, \<lparr>tables = [''MLMDEnv''], env_rows = [''1'', ''2''], issued = [''SELECT schema_version'']\<rparr>)
   \<and> ok OkStatus \<and> 1 < length (records \<lparr>column_names = [], records = [[''1''], [''2'']]\<rparr>)
   \<and> (\<exists>m. GetSchemaVersion (example_env 2) (example_config 2 example_schemes) 7 (example_db [''MLMDEnv''] [''1'', ''2''])
          = Returned (DataLossError m, 7, \<lparr>tables = [''MLMDEnv''], env_rows = [''1'', ''2''], issued = [''SELECT schema_version'']\<rparr>))
   \<and> ExecuteQuery (example_env 2) (check_mlmd_env_table (example_config 2 example_schemes)) [] empty_RecordSet (example_db [''MLMDEnv''] [''2''])
     = Returned (OkStatus, \<lparr>column_names = [], records = [[''2'']]\<rparr>, \<lparr>tables = [''MLMDEnv''], env_rows = [''2''], issued = [''SELECT schema_version'']\<rparr>)
   \<and> ok OkStatus \<and> records \<lparr>column_names = [], records = [[''2'']]\<rparr> = [''2'' # []]
     \<and> SimpleAtoi (example_env 2) ''2'' = Some 2
   \<and> GetSchemaVersion (example_env 2) (example_config 2 example_schemes) 7 (example_db [''MLMDEnv''] [''2''])
     = Returned (OkStatus, 2, \<lparr>tables = [''MLMDEnv''], env_rows = [''2''], issued = [''SELECT schema_version'']\<rparr>)
   \<and> ExecuteQuery (example_env 2) (check_mlmd_env_table (example_config 2 example_schemes)) [] empty_RecordSet (example_db [''Type''] [])
     = Returned (InternalError ''no such table'', \<lparr>column_names = [], records = []\<rparr>, \<lparr>tables = [''Type''], env_rows = [], issued = [''SELECT schema_version'']\<rparr>)
   \<and> ExecuteQuery (example_env 2) (check_tables_in_v0_13_2 (example_config 2 example_schemes)) [] \<lparr>column_names = [], records = []\<rparr>
       \<lparr>tables = [''Type''], env_rows = [], issued = [''SELECT schema_version'']\<rparr>
     = Returned (OkStatus, \<lparr>column_names = [], records = []\<rparr>, \<lparr>tables = [''Type''], env_rows = [], issued = [''SELECT schema_version'', ''SELECT Type'']\<rparr>)
   \<and> \<not> ok (InternalError ''no such table'') \<and> ok OkStatus
   \<and> GetSchemaVersion (example_env 2) (example_config 2 example_schemes) 7 (example_db [''Type''] [])
     = Returned (OkStatus, 0, \<lparr>tables = [''Type''], env_rows = [], issued = [''SELECT schema_version'', ''SELECT Type'']\<rparr>)
   \<and> ExecuteQuery (example_env 2) (check_mlmd_env_table (example_config 2 example_schemes)) [] empty_RecordSet (example_db [] [])
     = Returned (InternalError ''no such table'', \<lparr>column_names = [], records = []\<rparr>, \<lparr>tables = [], env_rows = [], issued = [''SELECT schema_version'']\<rparr>)
   \<and> ExecuteQuery (example_env 2) (check_tables_in_v0_13_2 (example_config 2 example_schemes)) [] \<lparr>column_names = [], records = []\<rparr>
       \<lparr>tables = [], env_rows = [], issued = [''SELECT schema_version'']\<rparr>
     = Returned (InternalError ''no such table'', \<lparr>column_names = [], records = []\<rparr>, \<lparr>tables = [], env_rows = [], issued = [''SELECT schema_version'', ''SELECT Type'']\<rparr>)
   \<and> \<not> ok (InternalError ''no such table'') \<and> \<not> ok (InternalError ''no such table'')
   \<and> (\<exists>m. GetSchemaVersion (example_env 2) (example_config 2 example_schemes) 7 (example_db [] [])
          = Returned (NotFoundError m, 7, \<lparr>tables = [], env_rows = [], issued = [''SELECT schema_version'', ''SELECT Type'']\<rparr>))"
proof -
  have p1: "ExecuteQuery (example_env 2) (check_mlmd_env_table (example_config 2 example_schemes)) [] empty_RecordSet (example_db [''MLMDEnv''] [])
     = Returned (OkStatus, \<lparr>column_names = [], records = []\<rparr>, \<lparr>tables = [''MLMDEnv''], env_rows = [], issued = [''SELECT schema_version'']\<rparr>)"
    by code_simp
  have o1: "ok OkStatus \<and> length (records \<lparr>column_names = [], records = []\<rparr>) = 0"
    by simp
  have r1: "(\<exists>m. GetSchemaVersion (example_env 2) (example_config 2 example_schemes) 7 (example_db [''MLMDEnv''] [])
          = Returned (AbortedError m, 7, \<lparr>tables = [''MLMDEnv''], env_rows = [], issued = [''SELECT schema_version'']\<rparr>))"
    using GetSchemaVersion_cases [where db_version = 7, OF p1] o1 by blast
  have p2: "ExecuteQuery (example_env 2) (check_mlmd_env_table (example_config 2 example_schemes)) [] empty_RecordSet (example_db [''MLMDEnv''] [''1'', ''2''])
     = Returned (OkStatus, \<lparr>column_names = [], records = [[''1''], [''2'']]\<rparr>, \<lparr>tables = [''MLMDEnv''], env_rows = [''1'', ''2''], issued = [''SELECT schema_version'']\<rparr>)"
    by code_simp
  have o2: "ok OkStatus \<and> 1 < length (records \<lparr>column_names = [], records = [[''1''], [''2'']]\<rparr>)"
    by simp
  have r2: "(\<exists>m. GetSchemaVersion (example_env 2) (example_config 2 example_schemes) 7 (example_db [''MLMDEnv''] [''1'', ''2''])
          = Returned (DataLossError m, 7, \<lparr>tables = [''MLMDEnv''], env_rows = [''1'', ''2''], issued = [''SELECT schema_version'']\<rparr>))"
    using GetSchemaVersion_cases [where db_version = 7, OF p2] o2 by blast
  have p3: "ExecuteQuery (example_env 2) (check_mlmd_env_table (example_config 2 example_schemes)) [] empty_RecordSet (example_db [''MLMDEnv''] [''2''])
     = Returned (OkStatus, \<lparr>column_names = [], records = [[''2'']]\<rparr>, \<lparr>tables = [''MLMDEnv''], env_rows = [''2''], issued = [''SELECT schema_version'']\<rparr>)"
    by code_simp
  have o3: "ok OkStatus \<and> records \<lparr>column_names = [], records = [[''2'']]\<rparr> = [''2'' # []]
     \<and> SimpleAtoi (example_env 2) ''2'' = Some 2"
    by (simp add: example_env_def)
  have r3: "GetSchemaVersion (example_env 2) (example_config 2 example_schemes) 7 (example_db [''MLMDEnv''] [''2''])
     = Returned (OkStatus, 2, \<lparr>tables = [''MLMDEnv''], env_rows = [''2''], issued = [''SELECT schema_version'']\<rparr>)"
    using GetSchemaVersion_cases [where db_version = 7 and cell = "''2''" and cells = "[]" and v = 2, OF p3] o3 by blast
  have p4: "ExecuteQuery (example_env 2) (check_mlmd_env_table (example_config 2 example_schemes)) [] empty_RecordSet (example_db [''Type''] [])
     = Returned (InternalError ''no such table'', \<lparr>column_names = [], records = []\<rparr>, \<lparr>tables = [''Type''], env_rows = [], issued = [''SELECT schema_version'']\<rparr>)"
    by code_simp
  have q4: "ExecuteQuery (example_env 2) (check_tables_in_v0_13_2 (example_config 2 example_schemes)) [] \<lparr>column_names = [], records = []\<rparr>
       \<lparr>tables = [''Type''], env_rows = [], issued = [''SELECT schema_version'']\<rparr>
     = Returned (OkStatus, \<lparr>column_names = [], records = []\<rparr>, \<lparr>tables = [''Type''], env_rows = [], issued = [''SELECT schema_version'', ''SELECT Type'']\<rparr>)"
    by code_simp
  have o4: "\<not> ok (InternalError ''no such table'') \<and> ok OkStatus"
    by simp
  have r4: "GetSchemaVersion (example_env 2) (example_config 2 example_schemes) 7 (example_db [''Type''] [])
     = Returned (OkStatus, 0, \<lparr>tables = [''Type''], env_rows = [], issued = [''SELECT schema_version'', ''SELECT Type'']\<rparr>)"
    using GetSchemaVersion_cases [where db_version = 7, OF p4] q4 o4 by blast
  have p5: "ExecuteQuery (example_env 2) (check_mlmd_env_table (example_config 2 example_schemes)) [] empty_RecordSet (example_db [] [])
     = Returned (InternalError ''no such table'', \<lparr>column_names = [], records = []\<rparr>, \<lparr>tables = [], env_rows = [], issued = [''SELECT schema_version'']\<rparr>)"
    by code_simp
  have q5: "ExecuteQuery (example_env 2) (check_tables_in_v0_13_2 (example_config 2 example_schemes)) [] \<lparr>column_names = [], records = []\<rparr>
       \<lparr>tables = [], env_rows = [], issued = [''SELECT schema_version'']\<rparr>
     = Returned (InternalError ''no such table'', \<lparr>column_names = [], records = []\<rparr>, \<lparr>tables = [], env_rows = [], issued = [''SELECT schema_version'', ''SELECT Type'']\<rparr>)"
    by code_simp
  have o5: "\<not> ok (InternalError ''no such table'') \<and> \<not> ok (InternalError ''no such table'')"
    by simp
  have r5: "(\<exists>m. GetSchemaVersion (example_env 2) (example_config 2 example_schemes) 7 (example_db [] [])
          = Returned (NotFoundError m, 7, \<lparr>tables = [], env_rows = [], issued = [''SELECT schema_version'', ''SELECT Type'']\<rparr>))"
    using GetSchemaVersion_cases [where db_version = 7, OF p5] q5 o5 by blast
  show ?thesis
    using p1 o1 r1 p2 o2 r2 p3 o3 r3 p4 q4 o4 r4 p5 q5 o5 r5 by blast
qed

section \<open>The arity of a template query\<close>

text \<open>
  A template that declares one parameter, called with none: the process ends; no status
  is returned.
\<close>

theorem ExecuteQuery_arity_mismatch_is_fatal:
  "parameter_num \<lparr>query = ''SELECT $0'', parameter_num = 1\<rparr> \<noteq> int (length ([] :: string list))
   \<and> ExecuteQuery (example_env 2) \<lparr>query = ''SELECT $0'', parameter_num = 1\<rparr> [] empty_RecordSet (example_db [''Type''] []) = Fatal"
  by code_simp

text \<open>
  C8, as amended. \<open>ExecuteQuery\<close> rejects a call with more than 10 parameters with
  InvalidArgument, whatever the template declares, and leaves the record set and the
  database as they were. A call with at most 10 parameters whose number differs from the
  template's \<open>parameter_num\<close> (a 32-bit value) ends the process and returns no status. Only
  a call that passes both tests reaches the driver, with the substituted text.
\<close>

theorem ExecuteQuery_rejects:
  "(10 < length parameters \<longrightarrow>
      ExecuteQuery E template_query parameters record_set db
        = Returned (InvalidArgumentError
            ''Template query has too many parameters (at most 10 is supported).'', record_set, db))
   \<and> (length parameters \<le> 10 \<and> - (2 ^ 31) \<le> parameter_num template_query
       \<and> parameter_num template_query < 2 ^ 31
       \<and> parameter_num template_query \<noteq> int (length parameters) \<longrightarrow>
      ExecuteQuery E template_query parameters record_set db = Fatal)
   \<and> (length parameters \<le> 10 \<and> parameter_num template_query = int (length parameters) \<longrightarrow>
      ExecuteQuery E template_query parameters record_set db
        = Returned (source_ExecuteQuery E
            (StrReplaceAll (query template_query) (replacements_of parameters)) record_set db))"
proof -
  have conv: "parameter_num template_query mod 2 ^ 64 \<noteq> int (length parameters)"
    if "length parameters \<le> 10" "- (2 ^ 31) \<le> parameter_num template_query"
       "parameter_num template_query < 2 ^ 31"
       "parameter_num template_query \<noteq> int (length parameters)"
  proof (cases "0 \<le> parameter_num template_query")
    case True
    then have "parameter_num template_query mod 2 ^ 64 = parameter_num template_query"
      using that by simp
    then show ?thesis using that by simp
  next
    case False
    then have "(parameter_num template_query + 2 ^ 64) mod 2 ^ 64
                 = parameter_num template_query + 2 ^ 64"
      using that by (intro mod_pos_pos_trivial) simp_all
    then have "parameter_num template_query mod 2 ^ 64 = parameter_num template_query + 2 ^ 64"
      by simp
    then show ?thesis using that by simp
  qed
  show ?thesis
    using conv by (auto simp add: ExecuteQuery_def)
qed

theorem ExecuteQuery_rejects_witness:
  "10 < length (replicate 11 ''x'')
   \<and> ExecuteQuery (example_env 2) \<lparr>query = ''SELECT $0'', parameter_num = 1\<rparr> (replicate 11 ''x'') empty_RecordSet (example_db [''Type''] [])
     = Returned (InvalidArgumentError
         ''Template query has too many parameters (at most 10 is supported).'', empty_RecordSet, (example_db [''Type''] []))
   \<and> length ([] :: string list) \<le> 10 \<and> - (2 ^ 31) \<le> parameter_num \<lparr>query = ''SELECT $0'', parameter_num = 1\<rparr>
     \<and> parameter_num \<lparr>query = ''SELECT $0'', parameter_num = 1\<rparr> < 2 ^ 31
     \<and> parameter_num \<lparr>query = ''SELECT $0'', parameter_num = 1\<rparr> \<noteq> int (length ([] :: string list))
   \<and> ExecuteQuery (example_env 2) \<lparr>query = ''SELECT $0'', parameter_num = 1\<rparr> [] empty_RecordSet (example_db [''Type''] []) = Fatal
   \<and> length [''Type''] \<le> 10 \<and> parameter_num \<lparr>query = ''SELECT $0'', parameter_num = 1\<rparr> = int (length [''Type''])
   \<and> ExecuteQuery (example_env 2) \<lparr>query = ''SELECT $0'', parameter_num = 1\<rparr> [''Type''] empty_RecordSet (example_db [''Type''] [])
     = Returned (source_ExecuteQuery (example_env 2)
         (StrReplaceAll (query \<lparr>query = ''SELECT $0'', parameter_num = 1\<rparr>) (replacements_of [''Type''])) empty_RecordSet (example_db [''Type''] []))
   \<and> source_ExecuteQuery (example_env 2)
         (StrReplaceAll (query \<lparr>query = ''SELECT $0'', parameter_num = 1\<rparr>) (replacements_of [''Type''])) empty_RecordSet (example_db [''Type''] [])
     = (OkStatus, empty_RecordSet, \<lparr>tables = [''Type''], env_rows = [], issued = [''SELECT Type'']\<rparr>)"
proof -
  have many: "10 < length (replicate 11 ''x'')"
    by simp
  have rmany: "ExecuteQuery (example_env 2) \<lparr>query = ''SELECT $0'', parameter_num = 1\<rparr> (replicate 11 ''x'') empty_RecordSet (example_db [''Type''] [])
     = Returned (InvalidArgumentError
         ''Template query has too many parameters (at most 10 is supported).'', empty_RecordSet, (example_db [''Type''] []))"
    using ExecuteQuery_rejects [of "replicate 11 ''x''" "example_env 2" "\<lparr>query = ''SELECT $0'', parameter_num = 1\<rparr>" empty_RecordSet "example_db [''Type''] []"] many by blast
  have none: "length ([] :: string list) \<le> 10 \<and> - (2 ^ 31) \<le> parameter_num \<lparr>query = ''SELECT $0'', parameter_num = 1\<rparr>
     \<and> parameter_num \<lparr>query = ''SELECT $0'', parameter_num = 1\<rparr> < 2 ^ 31
     \<and> parameter_num \<lparr>query = ''SELECT $0'', parameter_num = 1\<rparr> \<noteq> int (length ([] :: string list))"
    by simp
  have rnone: "ExecuteQuery (example_env 2) \<lparr>query = ''SELECT $0'', parameter_num = 1\<rparr> [] empty_RecordSet (example_db [''Type''] []) = Fatal"
    using ExecuteQuery_rejects [of "[]" "example_env 2" "\<lparr>query = ''SELECT $0'', parameter_num = 1\<rparr>" empty_RecordSet "example_db [''Type''] []"] none by blast
  have one: "length [''Type''] \<le> 10 \<and> parameter_num \<lparr>query = ''SELECT $0'', parameter_num = 1\<rparr> = int (length [''Type''])"
    by simp
  have rone: "ExecuteQuery (example_env 2) \<lparr>query = ''SELECT $0'', parameter_num = 1\<rparr> [''Type''] empty_RecordSet (example_db [''Type''] [])
     = Returned (source_ExecuteQuery (example_env 2)
         (StrReplaceAll (query \<lparr>query = ''SELECT $0'', parameter_num = 1\<rparr>) (replacements_of [''Type''])) empty_RecordSet (example_db [''Type''] []))"
    using ExecuteQuery_rejects [of "[''Type'']" "example_env 2" "\<lparr>query = ''SELECT $0'', parameter_num = 1\<rparr>" empty_RecordSet "example_db [''Type''] []"] one by blast
  have eone: "source_ExecuteQuery (example_env 2)
         (StrReplaceAll (query \<lparr>query = ''SELECT $0'', parameter_num = 1\<rparr>) (replacements_of [''Type''])) empty_RecordSet (example_db [''Type''] [])
     = (OkStatus, empty_RecordSet, \<lparr>tables = [''Type''], env_rows = [], issued = [''SELECT Type'']\<rparr>)"
    by code_simp
  show ?thesis
    using many rmany none rnone one rone eone by blast
qed

section \<open>Listing with no candidates\<close>

text \<open>
  C9. For every node kind, all options and every driver, \<open>ListNodeIDsUsingOptions\<close> with
  a candidate list that is given and empty returns ok at once: the record set and the
  database are those it was called with, so no query has reached the driver.
\<close>

theorem ListNodeIDsUsingOptions_empty_candidates:
  "ListNodeIDsUsingOptions E node options (Some []) record_set db = Returned (OkStatus, record_set, db)"
  by (simp add: ListNodeIDsUsingOptions_def)

theorem ListNodeIDsUsingOptions_empty_candidates_witness:
  "ListNodeIDsUsingOptions (example_env 2) Artifact
     \<lparr>max_result_size = 200, order_by_field = \<lparr>field = ID, is_asc = False\<rparr>, next_page_token = []\<rparr>
     (Some []) empty_RecordSet (example_db [''Type''] [])
   = Returned (OkStatus, empty_RecordSet, (example_db [''Type''] []))"
  by (rule ListNodeIDsUsingOptions_empty_candidates)

section \<open>Facts about initialization\<close>

lemmas example_defs =
  example_env_def example_config_def example_schemes_def example_source_def example_check_def
  example_db_def example_tables_def template_def

lemma run_steps_Cons_eval:
  "run_steps (step # steps) db =
     (case step db of
        Fatal \<Rightarrow> Fatal
      | Returned r \<Rightarrow> if ok (fst r) then run_steps steps (snd r) else Returned r)"
  by (auto split: outcome.splits)

lemma steps_then_eval:
  "steps_then steps rest db =
     (case run_steps steps db of
        Fatal \<Rightarrow> Fatal
      | Returned r \<Rightarrow> if ok (fst r) then rest (snd r) else Returned r)"
  by (auto simp add: steps_then_def split: outcome.splits)

lemmas executor_eval =
  ExecuteQuery_def ExecuteQuery_template_def ExecuteQuery_string_def ExecuteQuery_string_rs_def
  StrReplaceAll_def replacements_of_def empty_RecordSet_def GetSchemaVersion_def
  schema_steps_def create_table_queries_def ignoring_duplicate_index_def
  insert_library_version_def run_steps_Cons_eval steps_then_eval to_string_def digits_of.simps

lemma steps_then_Nil: "steps_then [] rest = rest"
  by (rule ext) (simp add: steps_then_def)

lemma MLMD_RETURN_IF_ERROR_steps_then:
  "MLMD_RETURN_IF_ERROR step (steps_then steps rest) = steps_then (step # steps) rest"
  by (rule ext) (auto simp add: MLMD_RETURN_IF_ERROR_def steps_then_def split: outcome.splits)

lemma MLMD_RETURN_IF_ERROR_step:
  "MLMD_RETURN_IF_ERROR step rest = steps_then [step] rest"
  using MLMD_RETURN_IF_ERROR_steps_then [of step "[]" rest] by (simp add: steps_then_Nil)

lemma steps_then_append:
  "steps_then xs (steps_then ys rest) = steps_then (xs @ ys) rest"
  by (rule ext) (auto simp add: steps_then_def run_steps_append split: outcome.splits)

lemma create_secondary_indices_steps:
  "create_secondary_indices E qs db =
     run_steps (map (\<lambda>q. ignoring_duplicate_index (ExecuteQuery_template E q [])) qs) db"
  by (induction qs arbitrary: db) (auto simp add: ignoring_duplicate_index_def split: outcome.splits)

lemma run_steps_then: "MLMD_RETURN_IF_ERROR (run_steps steps) rest = steps_then steps rest"
  by (rule ext) (auto simp add: MLMD_RETURN_IF_ERROR_def steps_then_def split: outcome.splits)

lemma create_secondary_indices_then:
  "MLMD_RETURN_IF_ERROR (create_secondary_indices E qs) rest
     = steps_then (map (\<lambda>q. ignoring_duplicate_index (ExecuteQuery_template E q [])) qs) rest"
proof -
  have "create_secondary_indices E qs
          = run_steps (map (\<lambda>q. ignoring_duplicate_index (ExecuteQuery_template E q [])) qs)"
    by (rule ext) (rule create_secondary_indices_steps)
  then show ?thesis by (simp add: run_steps_then)
qed

lemma InitMetadataSource_steps:
  "InitMetadataSource E query_config
     = steps_then (schema_steps E query_config) (insert_library_version E query_config)"
  unfolding InitMetadataSource_def create_secondary_indices_then MLMD_RETURN_IF_ERROR_steps_then
  by (simp add: schema_steps_def create_table_queries_def steps_then_append)

lemma run_checks_length:
  "run_checks cs db = Returned (checks, db') \<Longrightarrow> length checks = length cs"
  by (induction cs arbitrary: db checks db') (auto split: outcome.splits)

lemma length_table_checks: "length (table_checks E query_config) = 15"
  by (simp add: table_checks_def)

lemma no_missing_iff:
  "missing_schema_error_messages checks = [] \<longleftrightarrow> list_all (\<lambda>c. ok (fst c)) checks"
  by (auto simp add: missing_schema_error_messages_def filter_empty_conv list_all_iff)

lemma length_filter_all: "length (filter P xs) = length xs \<longleftrightarrow> list_all P xs"
proof (induction xs)
  case Nil
  then show ?case by simp
next
  case (Cons x xs)
  show ?case
  proof (cases "P x")
    case True
    with Cons show ?thesis by simp
  next
    case False
    have "length (filter P xs) \<le> length xs" by simp
    then have "length (filter P xs) \<noteq> Suc (length xs)" by linarith
    with False show ?thesis by simp
  qed
qed

lemma all_missing_iff:
  "length checks = length (missing_schema_error_messages checks)
     \<longleftrightarrow> list_all (\<lambda>c. \<not> ok (fst c)) checks"
  using length_filter_all [of "\<lambda>c. \<not> ok (fst c)" checks]
  by (auto simp add: missing_schema_error_messages_def)

lemma InitMetadataSourceIfNotExists_upgrade_failed:
  assumes "\<not> query_schema_version_given E"
    and "UpgradeMetadataSourceIfOutOfDate E query_config enable_upgrade_migration db
           = Returned (s0, db0)"
    and "\<not> ok s0"
  shows "InitMetadataSourceIfNotExists E query_config enable_upgrade_migration db
           = Returned (s0, db0)"
  using assms by (simp add: InitMetadataSourceIfNotExists_def MLMD_RETURN_IF_ERROR_def)

lemma InitMetadataSourceIfNotExists_upgraded:
  assumes "\<not> query_schema_version_given E"
    and "UpgradeMetadataSourceIfOutOfDate E query_config enable_upgrade_migration db
           = Returned (s0, db0)"
    and "ok s0"
  shows "InitMetadataSourceIfNotExists E query_config enable_upgrade_migration db
           = check_tables_or_init E query_config db0"
  using assms by (simp add: InitMetadataSourceIfNotExists_def MLMD_RETURN_IF_ERROR_def)

lemma check_tables_or_init_all_present:
  assumes "run_checks (table_checks E query_config) db0 = Returned (checks, db1)"
    and "list_all (\<lambda>c. ok (fst c)) checks"
  shows "check_tables_or_init E query_config db0 = Returned (OkStatus, db1)"
  using assms by (simp add: check_tables_or_init_def no_missing_iff)

section \<open>Initialization of a database\<close>

text \<open>
  Two runs with no query schema version given. A database at version 0 with migration
  disabled: the upgrade step returns FailedPrecondition, which is the result, and no table
  is checked. A database at version 1 that lacks the table \<^verbatim>\<open>Context\<close>, with migration
  enabled: the upgrade step creates the table, every check passes, and the result is ok.
\<close>

theorem InitMetadataSourceIfNotExists_upgrade_comes_first:
  "\<not> query_schema_version_given (example_env 2)
   \<and> InitMetadataSourceIfNotExists (example_env 2) (example_config 2 example_schemes) False (example_db [''Type''] [])
     = Returned (FailedPreconditionError
         ''MLMD database version 0 is older than library version 2. Schema migration is disabled. Please upgrade the database then use the library version; or switch to a older library version to use the current database. For more details, please refer to ml-metadata https://github.com/google/ml-metadata/blob/master/g3doc/get_started.md#upgrade-the-database-schema'',
       \<lparr>tables = [''Type''], env_rows = [],
        issued = [''SELECT schema_version'', ''SELECT Type'']\<rparr>)
   \<and> InitMetadataSourceIfNotExists (example_env 2) (example_config 2 example_schemes) True
       (example_db (filter (\<lambda>t. t \<noteq> ''Context'') example_tables) [''1''])
     = Returned (OkStatus,
       \<lparr>tables = (filter (\<lambda>t. t \<noteq> ''Context'') example_tables) @ [''Context''], env_rows = [''2''],
        issued = [''SELECT schema_version'', ''CREATE TABLE Context'', ''SELECT ParentType'', ''SELECT ParentContext'']\<rparr>)"
proof -
  have pin: "\<not> query_schema_version_given (example_env 2)"
    by (simp add: example_env_def)
  have u0: "UpgradeMetadataSourceIfOutOfDate (example_env 2) (example_config 2 example_schemes) False (example_db [''Type''] [])
     = Returned (FailedPreconditionError
         ''MLMD database version 0 is older than library version 2. Schema migration is disabled. Please upgrade the database then use the library version; or switch to a older library version to use the current database. For more details, please refer to ml-metadata https://github.com/google/ml-metadata/blob/master/g3doc/get_started.md#upgrade-the-database-schema'',
       \<lparr>tables = [''Type''], env_rows = [],
        issued = [''SELECT schema_version'', ''SELECT Type'']\<rparr>)"
    by code_simp
  have u1: "UpgradeMetadataSourceIfOutOfDate (example_env 2) (example_config 2 example_schemes) True
       (example_db (filter (\<lambda>t. t \<noteq> ''Context'') example_tables) [''1''])
     = Returned (OkStatus,
       \<lparr>tables = (filter (\<lambda>t. t \<noteq> ''Context'') example_tables) @ [''Context''], env_rows = [''2''],
        issued = [''SELECT schema_version'', ''CREATE TABLE Context'']\<rparr>)"
    by code_simp
  have c1: "run_checks (table_checks (example_env 2) (example_config 2 example_schemes))
       \<lparr>tables = (filter (\<lambda>t. t \<noteq> ''Context'') example_tables) @ [''Context''], env_rows = [''2''],
        issued = [''SELECT schema_version'', ''CREATE TABLE Context'']\<rparr>
     = Returned (map (\<lambda>c. (OkStatus, snd c)) (table_checks (example_env 2) (example_config 2 example_schemes)),
       \<lparr>tables = (filter (\<lambda>t. t \<noteq> ''Context'') example_tables) @ [''Context''], env_rows = [''2''],
        issued = [''SELECT schema_version'', ''CREATE TABLE Context'', ''SELECT ParentType'', ''SELECT ParentContext'']\<rparr>)"
    by code_simp
  have p1: "list_all (\<lambda>c. ok (fst c)) (map (\<lambda>c. (OkStatus, snd c)) (table_checks (example_env 2) (example_config 2 example_schemes)))"
    by code_simp
  show ?thesis
    using pin InitMetadataSourceIfNotExists_upgrade_failed [OF pin u0]
      InitMetadataSourceIfNotExists_upgraded [OF pin u1]
      check_tables_or_init_all_present [OF c1 p1]
    by simp
qed

text \<open>
  C4, as amended. With no query schema version given, \<open>InitMetadataSourceIfNotExists\<close>
  first takes the upgrade step. When that step does not return ok, its status is the
  result and no table is checked. When it returns ok, the fifteen checks are made, and
  there are three outcomes. Every check ok: the result is ok and nothing runs after the
  checks; what the upgrade step did before them stays. Some checks ok and some not:
  Aborted. No check ok: \<open>InitMetadataSource\<close> runs from that state, that is, the fifteen
  queries that create the tables, then every secondary index, passing over a failure whose
  message has \<^verbatim>\<open>Duplicate key name\<close> in it; the first other failure is the result;
  when none failed, \<open>InsertSchemaVersion\<close> is called with the library version, and when it
  returns ok the result is ok with the database as that call left it. Where the upgrade
  step or a check ends the process, so does the call.
\<close>

theorem InitMetadataSourceIfNotExists_outcomes:
  assumes "\<not> query_schema_version_given E"
  shows
    "(UpgradeMetadataSourceIfOutOfDate E query_config enable_upgrade_migration db = Fatal \<longrightarrow>
        InitMetadataSourceIfNotExists E query_config enable_upgrade_migration db = Fatal)
     \<and> (UpgradeMetadataSourceIfOutOfDate E query_config enable_upgrade_migration db
           = Returned (upgrade_status, upgraded) \<and> \<not> ok upgrade_status \<longrightarrow>
        InitMetadataSourceIfNotExists E query_config enable_upgrade_migration db
          = Returned (upgrade_status, upgraded))
     \<and> (UpgradeMetadataSourceIfOutOfDate E query_config enable_upgrade_migration db
           = Returned (upgrade_status, upgraded) \<and> ok upgrade_status
         \<and> run_checks (table_checks E query_config) upgraded = Fatal \<longrightarrow>
        InitMetadataSourceIfNotExists E query_config enable_upgrade_migration db = Fatal)
     \<and> (UpgradeMetadataSourceIfOutOfDate E query_config enable_upgrade_migration db
           = Returned (upgrade_status, upgraded) \<and> ok upgrade_status
         \<and> run_checks (table_checks E query_config) upgraded
             = Returned (checks, checked) \<longrightarrow>
        length checks = 15
        \<and> (list_all (\<lambda>c. ok (fst c)) checks \<longrightarrow>
             InitMetadataSourceIfNotExists E query_config enable_upgrade_migration db
               = Returned (OkStatus, checked))
        \<and> (list_ex (\<lambda>c. ok (fst c)) checks \<and> list_ex (\<lambda>c. \<not> ok (fst c)) checks \<longrightarrow>
             (\<exists>m. InitMetadataSourceIfNotExists E query_config enable_upgrade_migration db
                   = Returned (AbortedError m, checked)))
        \<and> (list_all (\<lambda>c. \<not> ok (fst c)) checks \<longrightarrow>
             InitMetadataSourceIfNotExists E query_config enable_upgrade_migration db
               = InitMetadataSource E query_config checked
             \<and> (run_steps (schema_steps E query_config) checked
                   = Returned (schema_status, with_schema)
                 \<and> \<not> ok schema_status \<longrightarrow>
                  InitMetadataSourceIfNotExists E query_config enable_upgrade_migration db
                    = Returned (schema_status, with_schema))
             \<and> (run_steps (schema_steps E query_config) checked
                   = Returned (schema_status, with_schema)
                 \<and> ok schema_status
                 \<and> InsertSchemaVersion E (GetLibraryVersion E) with_schema
                     = Returned (insert_status, with_version)
                 \<and> ok insert_status \<longrightarrow>
                  InitMetadataSourceIfNotExists E query_config enable_upgrade_migration db
                    = Returned (OkStatus, with_version))))"
proof -
  let ?init = "InitMetadataSourceIfNotExists E query_config enable_upgrade_migration db"
  let ?upgrade = "UpgradeMetadataSourceIfOutOfDate E query_config enable_upgrade_migration db"
  have fatal: "?init = Fatal" if "?upgrade = Fatal"
    using assms that by (simp add: InitMetadataSourceIfNotExists_def MLMD_RETURN_IF_ERROR_def)
  have failed: "?init = Returned (upgrade_status, upgraded)" if "?upgrade = Returned (upgrade_status, upgraded)" "\<not> ok upgrade_status"
    using InitMetadataSourceIfNotExists_upgrade_failed [OF assms that] .
  have no_checks: "?init = Fatal"
    if "?upgrade = Returned (upgrade_status, upgraded)" "ok upgrade_status"
       "run_checks (table_checks E query_config) upgraded = Fatal"
    using InitMetadataSourceIfNotExists_upgraded [OF assms that(1,2)] that(3)
    by (simp add: check_tables_or_init_def)
  have checked: "length checks = 15
        \<and> (list_all (\<lambda>c. ok (fst c)) checks \<longrightarrow> ?init = Returned (OkStatus, checked))
        \<and> (list_ex (\<lambda>c. ok (fst c)) checks \<and> list_ex (\<lambda>c. \<not> ok (fst c)) checks \<longrightarrow>
             (\<exists>m. ?init = Returned (AbortedError m, checked)))
        \<and> (list_all (\<lambda>c. \<not> ok (fst c)) checks \<longrightarrow>
             ?init = InitMetadataSource E query_config checked
             \<and> (run_steps (schema_steps E query_config) checked
                   = Returned (schema_status, with_schema)
                 \<and> \<not> ok schema_status \<longrightarrow>
                  ?init = Returned (schema_status, with_schema))
             \<and> (run_steps (schema_steps E query_config) checked
                   = Returned (schema_status, with_schema)
                 \<and> ok schema_status
                 \<and> InsertSchemaVersion E (GetLibraryVersion E) with_schema
                     = Returned (insert_status, with_version)
                 \<and> ok insert_status \<longrightarrow>
                  ?init = Returned (OkStatus, with_version)))"
    if up: "?upgrade = Returned (upgrade_status, upgraded)" "ok upgrade_status"
      and rc: "run_checks (table_checks E query_config) upgraded = Returned (checks, checked)"
  proof -
    have len: "length checks = 15"
      using run_checks_length [OF rc] by (simp add: length_table_checks)
    have body: "?init = check_tables_or_init E query_config upgraded"
      using InitMetadataSourceIfNotExists_upgraded [OF assms up] .
    have all_ok: "?init = Returned (OkStatus, checked)" if "list_all (\<lambda>c. ok (fst c)) checks"
      using check_tables_or_init_all_present [OF rc that] by (simp add: body)
    have some: "\<exists>m. ?init = Returned (AbortedError m, checked)"
      if "list_ex (\<lambda>c. ok (fst c)) checks" "list_ex (\<lambda>c. \<not> ok (fst c)) checks"
    proof -
      have "\<not> list_all (\<lambda>c. ok (fst c)) checks" "\<not> list_all (\<lambda>c. \<not> ok (fst c)) checks"
        using that by (auto simp add: list_all_iff list_ex_iff)
      then show ?thesis
        using rc by (auto simp add: body check_tables_or_init_def no_missing_iff all_missing_iff)
    qed
    have none: "?init = InitMetadataSource E query_config checked"
      if "list_all (\<lambda>c. \<not> ok (fst c)) checks"
    proof -
      have "checks \<noteq> []" using len by auto
      then have "\<not> list_all (\<lambda>c. ok (fst c)) checks"
        using that by (cases checks) auto
      then show ?thesis
        using that rc
        by (simp add: body check_tables_or_init_def no_missing_iff all_missing_iff)
    qed
    have broken: "InitMetadataSource E query_config checked = Returned (schema_status, with_schema)"
      if "run_steps (schema_steps E query_config) checked = Returned (schema_status, with_schema)" "\<not> ok schema_status"
      using that by (simp add: InitMetadataSource_steps steps_then_def)
    have written: "InitMetadataSource E query_config checked = Returned (OkStatus, with_version)"
      if "run_steps (schema_steps E query_config) checked = Returned (schema_status, with_schema)" "ok schema_status"
         "InsertSchemaVersion E (GetLibraryVersion E) with_schema = Returned (insert_status, with_version)" "ok insert_status"
      using that by (simp add: InitMetadataSource_steps steps_then_def insert_library_version_def)
    show ?thesis
      using len all_ok some none broken written by metis
  qed
  show ?thesis
    using fatal failed no_checks checked by blast
qed

theorem InitMetadataSourceIfNotExists_outcomes_witness:
  "\<not> query_schema_version_given (example_env 2)
   \<and> ok OkStatus
   \<and> UpgradeMetadataSourceIfOutOfDate (example_env 2) (example_config 2 example_schemes) True (example_db [''MLMDEnv''] [''x'']) = Fatal
   \<and> InitMetadataSourceIfNotExists (example_env 2) (example_config 2 example_schemes) True (example_db [''MLMDEnv''] [''x'']) = Fatal
   \<and> UpgradeMetadataSourceIfOutOfDate (example_env 2) (example_config 2 example_schemes) False (example_db [''Type''] [])
     = Returned (FailedPreconditionError
         ''MLMD database version 0 is older than library version 2. Schema migration is disabled. Please upgrade the database then use the library version; or switch to a older library version to use the current database. For more details, please refer to ml-metadata https://github.com/google/ml-metadata/blob/master/g3doc/get_started.md#upgrade-the-database-schema'',
       \<lparr>tables = [''Type''], env_rows = [],
        issued = [''SELECT schema_version'', ''SELECT Type'']\<rparr>)
   \<and> \<not> ok (FailedPreconditionError
         ''MLMD database version 0 is older than library version 2. Schema migration is disabled. Please upgrade the database then use the library version; or switch to a older library version to use the current database. For more details, please refer to ml-metadata https://github.com/google/ml-metadata/blob/master/g3doc/get_started.md#upgrade-the-database-schema'')
   \<and> InitMetadataSourceIfNotExists (example_env 2) (example_config 2 example_schemes) False (example_db [''Type''] [])
     = Returned (FailedPreconditionError
         ''MLMD database version 0 is older than library version 2. Schema migration is disabled. Please upgrade the database then use the library version; or switch to a older library version to use the current database. For more details, please refer to ml-metadata https://github.com/google/ml-metadata/blob/master/g3doc/get_started.md#upgrade-the-database-schema'',
       \<lparr>tables = [''Type''], env_rows = [],
        issued = [''SELECT schema_version'', ''SELECT Type'']\<rparr>)
   \<and> UpgradeMetadataSourceIfOutOfDate (example_env 2)
       (example_config 2 example_schemes\<lparr>check_parent_type_table := \<lparr>query = ''SELECT $0'', parameter_num = 1\<rparr>\<rparr>) True (example_db [] [])
     = Returned (OkStatus,
       \<lparr>tables = [], env_rows = [],
        issued = [''SELECT schema_version'', ''SELECT Type'']\<rparr>)
   \<and> run_checks (table_checks (example_env 2)
       (example_config 2 example_schemes\<lparr>check_parent_type_table := \<lparr>query = ''SELECT $0'', parameter_num = 1\<rparr>\<rparr>))
       \<lparr>tables = [], env_rows = [],
        issued = [''SELECT schema_version'', ''SELECT Type'']\<rparr> = Fatal
   \<and> InitMetadataSourceIfNotExists (example_env 2)
       (example_config 2 example_schemes\<lparr>check_parent_type_table := \<lparr>query = ''SELECT $0'', parameter_num = 1\<rparr>\<rparr>) True (example_db [] []) = Fatal
   \<and> UpgradeMetadataSourceIfOutOfDate (example_env 2) (example_config 2 example_schemes) True (example_db example_tables [''2''])
     = Returned (OkStatus,
       \<lparr>tables = example_tables, env_rows = [''2''],
        issued = [''SELECT schema_version'']\<rparr>)
   \<and> run_checks (table_checks (example_env 2) (example_config 2 example_schemes))
       \<lparr>tables = example_tables, env_rows = [''2''],
        issued = [''SELECT schema_version'']\<rparr>
     = Returned (map (\<lambda>c. (OkStatus, snd c)) (table_checks (example_env 2) (example_config 2 example_schemes)),
       \<lparr>tables = example_tables, env_rows = [''2''],
        issued = [''SELECT schema_version'', ''SELECT ParentType'', ''SELECT ParentContext'']\<rparr>)
   \<and> list_all (\<lambda>c. ok (fst c)) (map (\<lambda>c. (OkStatus, snd c)) (table_checks (example_env 2) (example_config 2 example_schemes)))
   \<and> InitMetadataSourceIfNotExists (example_env 2) (example_config 2 example_schemes) True (example_db example_tables [''2''])
     = Returned (OkStatus,
       \<lparr>tables = example_tables, env_rows = [''2''],
        issued = [''SELECT schema_version'', ''SELECT ParentType'', ''SELECT ParentContext'']\<rparr>)
   \<and> UpgradeMetadataSourceIfOutOfDate (example_env 2) (example_config 2 example_schemes) True (example_db [''Type'', ''MLMDEnv''] [''2''])
     = Returned (OkStatus,
       \<lparr>tables = [''Type'', ''MLMDEnv''], env_rows = [''2''],
        issued = [''SELECT schema_version'']\<rparr>)
   \<and> run_checks (table_checks (example_env 2) (example_config 2 example_schemes))
       \<lparr>tables = [''Type'', ''MLMDEnv''], env_rows = [''2''],
        issued = [''SELECT schema_version'']\<rparr>
     = Returned (map (\<lambda>c. (if snd c = ''type_table'' \<or> snd c = ''mlmd_env_table'' then OkStatus
                       else InternalError ''no such table'', snd c))
            (table_checks (example_env 2) (example_config 2 example_schemes)),
       \<lparr>tables = [''Type'', ''MLMDEnv''], env_rows = [''2''],
        issued = [''SELECT schema_version'', ''SELECT ParentType'', ''SELECT ParentContext'']\<rparr>)
   \<and> list_ex (\<lambda>c. ok (fst c)) (map (\<lambda>c. (if snd c = ''type_table'' \<or> snd c = ''mlmd_env_table'' then OkStatus
                       else InternalError ''no such table'', snd c))
            (table_checks (example_env 2) (example_config 2 example_schemes)))
     \<and> list_ex (\<lambda>c. \<not> ok (fst c)) (map (\<lambda>c. (if snd c = ''type_table'' \<or> snd c = ''mlmd_env_table'' then OkStatus
                       else InternalError ''no such table'', snd c))
            (table_checks (example_env 2) (example_config 2 example_schemes)))
   \<and> (\<exists>m. InitMetadataSourceIfNotExists (example_env 2) (example_config 2 example_schemes) True (example_db [''Type'', ''MLMDEnv''] [''2''])
          = Returned (AbortedError m,
       \<lparr>tables = [''Type'', ''MLMDEnv''], env_rows = [''2''],
        issued = [''SELECT schema_version'', ''SELECT ParentType'', ''SELECT ParentContext'']\<rparr>))
   \<and> UpgradeMetadataSourceIfOutOfDate (example_env 2) (example_config 2 example_schemes) True (example_db [] [])
     = Returned (OkStatus,
       \<lparr>tables = [], env_rows = [],
        issued = [''SELECT schema_version'', ''SELECT Type'']\<rparr>)
   \<and> run_checks (table_checks (example_env 2) (example_config 2 example_schemes))
       \<lparr>tables = [], env_rows = [],
        issued = [''SELECT schema_version'', ''SELECT Type'']\<rparr>
     = Returned (map (\<lambda>c. (InternalError ''no such table'', snd c)) (table_checks (example_env 2) (example_config 2 example_schemes)),
       \<lparr>tables = [], env_rows = [],
        issued = [''SELECT schema_version'', ''SELECT Type'', ''SELECT ParentType'', ''SELECT ParentContext'']\<rparr>)
   \<and> list_all (\<lambda>c. \<not> ok (fst c)) (map (\<lambda>c. (InternalError ''no such table'', snd c)) (table_checks (example_env 2) (example_config 2 example_schemes)))
   \<and> run_steps (schema_steps (example_env 2) (example_config 2 example_schemes))
       \<lparr>tables = [], env_rows = [],
        issued = [''SELECT schema_version'', ''SELECT Type'', ''SELECT ParentType'', ''SELECT ParentContext'']\<rparr>
     = Returned (OkStatus,
       \<lparr>tables = map (drop 13) (map query (create_table_queries (example_config 2 example_schemes))) @ [''idx_artifact_uri''],
        env_rows = [],
        issued = [''SELECT schema_version'', ''SELECT Type'', ''SELECT ParentType'', ''SELECT ParentContext'']
                 @ map query (create_table_queries (example_config 2 example_schemes)) @ [''CREATE INDEX idx_artifact_uri'']\<rparr>)
   \<and> InsertSchemaVersion (example_env 2) (GetLibraryVersion (example_env 2))
       \<lparr>tables = map (drop 13) (map query (create_table_queries (example_config 2 example_schemes))) @ [''idx_artifact_uri''],
        env_rows = [],
        issued = [''SELECT schema_version'', ''SELECT Type'', ''SELECT ParentType'', ''SELECT ParentContext'']
                 @ map query (create_table_queries (example_config 2 example_schemes)) @ [''CREATE INDEX idx_artifact_uri'']\<rparr>
     = Returned (OkStatus,
       \<lparr>tables = map (drop 13) (map query (create_table_queries (example_config 2 example_schemes))) @ [''idx_artifact_uri''],
        env_rows = [''2''],
        issued = [''SELECT schema_version'', ''SELECT Type'', ''SELECT ParentType'', ''SELECT ParentContext'']
                 @ map query (create_table_queries (example_config 2 example_schemes)) @ [''CREATE INDEX idx_artifact_uri'']\<rparr>)
   \<and> InitMetadataSourceIfNotExists (example_env 2) (example_config 2 example_schemes) True (example_db [] [])
     = InitMetadataSource (example_env 2) (example_config 2 example_schemes)
       \<lparr>tables = [], env_rows = [],
        issued = [''SELECT schema_version'', ''SELECT Type'', ''SELECT ParentType'', ''SELECT ParentContext'']\<rparr>
   \<and> InitMetadataSourceIfNotExists (example_env 2) (example_config 2 example_schemes) True (example_db [] [])
     = Returned (OkStatus,
       \<lparr>tables = map (drop 13) (map query (create_table_queries (example_config 2 example_schemes))) @ [''idx_artifact_uri''],
        env_rows = [''2''],
        issued = [''SELECT schema_version'', ''SELECT Type'', ''SELECT ParentType'', ''SELECT ParentContext'']
                 @ map query (create_table_queries (example_config 2 example_schemes)) @ [''CREATE INDEX idx_artifact_uri'']\<rparr>)
   \<and> UpgradeMetadataSourceIfOutOfDate (example_env 2)
       (example_config 2 example_schemes\<lparr>create_parent_type_table := template ''BOGUS''\<rparr>) True (example_db [] [])
     = Returned (OkStatus,
       \<lparr>tables = [], env_rows = [],
        issued = [''SELECT schema_version'', ''SELECT Type'']\<rparr>)
   \<and> run_checks (table_checks (example_env 2)
       (example_config 2 example_schemes\<lparr>create_parent_type_table := template ''BOGUS''\<rparr>))
       \<lparr>tables = [], env_rows = [],
        issued = [''SELECT schema_version'', ''SELECT Type'']\<rparr>
     = Returned (map (\<lambda>c. (InternalError ''no such table'', snd c))
         (table_checks (example_env 2) (example_config 2 example_schemes\<lparr>create_parent_type_table := template ''BOGUS''\<rparr>)),
       \<lparr>tables = [], env_rows = [],
        issued = [''SELECT schema_version'', ''SELECT Type'', ''SELECT ParentType'', ''SELECT ParentContext'']\<rparr>)
   \<and> list_all (\<lambda>c. \<not> ok (fst c)) (map (\<lambda>c. (InternalError ''no such table'', snd c))
         (table_checks (example_env 2) (example_config 2 example_schemes\<lparr>create_parent_type_table := template ''BOGUS''\<rparr>)))
   \<and> run_steps (schema_steps (example_env 2)
       (example_config 2 example_schemes\<lparr>create_parent_type_table := template ''BOGUS''\<rparr>))
       \<lparr>tables = [], env_rows = [],
        issued = [''SELECT schema_version'', ''SELECT Type'', ''SELECT ParentType'', ''SELECT ParentContext'']\<rparr>
     = Returned (InternalError ''syntax error'',
       \<lparr>tables = [''Type'', ''TypeProperty''], env_rows = [],
        issued = [''SELECT schema_version'', ''SELECT Type'', ''SELECT ParentType'', ''SELECT ParentContext'', ''CREATE TABLE Type'', ''CREATE TABLE TypeProperty'', ''BOGUS'']\<rparr>)
   \<and> \<not> ok (InternalError ''syntax error'')
   \<and> InitMetadataSourceIfNotExists (example_env 2)
       (example_config 2 example_schemes\<lparr>create_parent_type_table := template ''BOGUS''\<rparr>) True (example_db [] [])
     = Returned (InternalError ''syntax error'',
       \<lparr>tables = [''Type'', ''TypeProperty''], env_rows = [],
        issued = [''SELECT schema_version'', ''SELECT Type'', ''SELECT ParentType'', ''SELECT ParentContext'', ''CREATE TABLE Type'', ''CREATE TABLE TypeProperty'', ''BOGUS'']\<rparr>)"
proof -
  have pin: "\<not> query_schema_version_given (example_env 2)"
    by (simp add: example_env_def)
  have okay: "ok OkStatus"
    by simp
  have uf: "UpgradeMetadataSourceIfOutOfDate (example_env 2) (example_config 2 example_schemes) True (example_db [''MLMDEnv''] [''x'']) = Fatal"
    by code_simp
  have rf: "InitMetadataSourceIfNotExists (example_env 2) (example_config 2 example_schemes) True (example_db [''MLMDEnv''] [''x'']) = Fatal"
    using InitMetadataSourceIfNotExists_outcomes [OF pin, where query_config = "example_config 2 example_schemes" and enable_upgrade_migration = "True" and db = "example_db [''MLMDEnv''] [''x'']"] uf by blast
  have ue: "UpgradeMetadataSourceIfOutOfDate (example_env 2) (example_config 2 example_schemes) False (example_db [''Type''] [])
     = Returned (FailedPreconditionError
         ''MLMD database version 0 is older than library version 2. Schema migration is disabled. Please upgrade the database then use the library version; or switch to a older library version to use the current database. For more details, please refer to ml-metadata https://github.com/google/ml-metadata/blob/master/g3doc/get_started.md#upgrade-the-database-schema'',
       \<lparr>tables = [''Type''], env_rows = [],
        issued = [''SELECT schema_version'', ''SELECT Type'']\<rparr>)"
    by code_simp
  have ne: "\<not> ok (FailedPreconditionError
         ''MLMD database version 0 is older than library version 2. Schema migration is disabled. Please upgrade the database then use the library version; or switch to a older library version to use the current database. For more details, please refer to ml-metadata https://github.com/google/ml-metadata/blob/master/g3doc/get_started.md#upgrade-the-database-schema'')"
    by simp
  have re: "InitMetadataSourceIfNotExists (example_env 2) (example_config 2 example_schemes) False (example_db [''Type''] [])
     = Returned (FailedPreconditionError
         ''MLMD database version 0 is older than library version 2. Schema migration is disabled. Please upgrade the database then use the library version; or switch to a older library version to use the current database. For more details, please refer to ml-metadata https://github.com/google/ml-metadata/blob/master/g3doc/get_started.md#upgrade-the-database-schema'',
       \<lparr>tables = [''Type''], env_rows = [],
        issued = [''SELECT schema_version'', ''SELECT Type'']\<rparr>)"
    using InitMetadataSourceIfNotExists_outcomes [OF pin, where query_config = "example_config 2 example_schemes" and enable_upgrade_migration = "False" and db = "example_db [''Type''] []" and upgrade_status = "FailedPreconditionError
         ''MLMD database version 0 is older than library version 2. Schema migration is disabled. Please upgrade the database then use the library version; or switch to a older library version to use the current database. For more details, please refer to ml-metadata https://github.com/google/ml-metadata/blob/master/g3doc/get_started.md#upgrade-the-database-schema''" and upgraded = "\<lparr>tables = [''Type''], env_rows = [],
        issued = [''SELECT schema_version'', ''SELECT Type'']\<rparr>"] ue ne by blast
  have uk: "UpgradeMetadataSourceIfOutOfDate (example_env 2)
       (example_config 2 example_schemes\<lparr>check_parent_type_table := \<lparr>query = ''SELECT $0'', parameter_num = 1\<rparr>\<rparr>) True (example_db [] [])
     = Returned (OkStatus,
       \<lparr>tables = [], env_rows = [],
        issued = [''SELECT schema_version'', ''SELECT Type'']\<rparr>)"
    by code_simp
  have ck: "run_checks (table_checks (example_env 2)
       (example_config 2 example_schemes\<lparr>check_parent_type_table := \<lparr>query = ''SELECT $0'', parameter_num = 1\<rparr>\<rparr>))
       \<lparr>tables = [], env_rows = [],
        issued = [''SELECT schema_version'', ''SELECT Type'']\<rparr> = Fatal"
    by code_simp
  have rk: "InitMetadataSourceIfNotExists (example_env 2)
       (example_config 2 example_schemes\<lparr>check_parent_type_table := \<lparr>query = ''SELECT $0'', parameter_num = 1\<rparr>\<rparr>) True (example_db [] []) = Fatal"
    using InitMetadataSourceIfNotExists_outcomes [OF pin, where query_config = "example_config 2 example_schemes\<lparr>check_parent_type_table := \<lparr>query = ''SELECT $0'', parameter_num = 1\<rparr>\<rparr>" and enable_upgrade_migration = "True" and db = "example_db [] []" and upgrade_status = "OkStatus" and upgraded = "\<lparr>tables = [], env_rows = [],
        issued = [''SELECT schema_version'', ''SELECT Type'']\<rparr>"] uk okay ck by blast
  have ua: "UpgradeMetadataSourceIfOutOfDate (example_env 2) (example_config 2 example_schemes) True (example_db example_tables [''2''])
     = Returned (OkStatus,
       \<lparr>tables = example_tables, env_rows = [''2''],
        issued = [''SELECT schema_version'']\<rparr>)"
    by code_simp
  have ca: "run_checks (table_checks (example_env 2) (example_config 2 example_schemes))
       \<lparr>tables = example_tables, env_rows = [''2''],
        issued = [''SELECT schema_version'']\<rparr>
     = Returned (map (\<lambda>c. (OkStatus, snd c)) (table_checks (example_env 2) (example_config 2 example_schemes)),
       \<lparr>tables = example_tables, env_rows = [''2''],
        issued = [''SELECT schema_version'', ''SELECT ParentType'', ''SELECT ParentContext'']\<rparr>)"
    by code_simp
  have pa: "list_all (\<lambda>c. ok (fst c)) (map (\<lambda>c. (OkStatus, snd c)) (table_checks (example_env 2) (example_config 2 example_schemes)))"
    by code_simp
  have ra: "InitMetadataSourceIfNotExists (example_env 2) (example_config 2 example_schemes) True (example_db example_tables [''2''])
     = Returned (OkStatus,
       \<lparr>tables = example_tables, env_rows = [''2''],
        issued = [''SELECT schema_version'', ''SELECT ParentType'', ''SELECT ParentContext'']\<rparr>)"
    using InitMetadataSourceIfNotExists_outcomes [OF pin, where query_config = "example_config 2 example_schemes" and enable_upgrade_migration = "True" and db = "example_db example_tables [''2'']" and upgrade_status = "OkStatus" and upgraded = "\<lparr>tables = example_tables, env_rows = [''2''],
        issued = [''SELECT schema_version'']\<rparr>" and checks = "map (\<lambda>c. (OkStatus, snd c)) (table_checks (example_env 2) (example_config 2 example_schemes))" and checked = "\<lparr>tables = example_tables, env_rows = [''2''],
        issued = [''SELECT schema_version'', ''SELECT ParentType'', ''SELECT ParentContext'']\<rparr>"] ua okay ca pa by blast
  have ub: "UpgradeMetadataSourceIfOutOfDate (example_env 2) (example_config 2 example_schemes) True (example_db [''Type'', ''MLMDEnv''] [''2''])
     = Returned (OkStatus,
       \<lparr>tables = [''Type'', ''MLMDEnv''], env_rows = [''2''],
        issued = [''SELECT schema_version'']\<rparr>)"
    by code_simp
  have cb: "run_checks (table_checks (example_env 2) (example_config 2 example_schemes))
       \<lparr>tables = [''Type'', ''MLMDEnv''], env_rows = [''2''],
        issued = [''SELECT schema_version'']\<rparr>
     = Returned (map (\<lambda>c. (if snd c = ''type_table'' \<or> snd c = ''mlmd_env_table'' then OkStatus
                       else InternalError ''no such table'', snd c))
            (table_checks (example_env 2) (example_config 2 example_schemes)),
       \<lparr>tables = [''Type'', ''MLMDEnv''], env_rows = [''2''],
        issued = [''SELECT schema_version'', ''SELECT ParentType'', ''SELECT ParentContext'']\<rparr>)"
    by code_simp
  have pb: "list_ex (\<lambda>c. ok (fst c)) (map (\<lambda>c. (if snd c = ''type_table'' \<or> snd c = ''mlmd_env_table'' then OkStatus
                       else InternalError ''no such table'', snd c))
            (table_checks (example_env 2) (example_config 2 example_schemes)))
     \<and> list_ex (\<lambda>c. \<not> ok (fst c)) (map (\<lambda>c. (if snd c = ''type_table'' \<or> snd c = ''mlmd_env_table'' then OkStatus
                       else InternalError ''no such table'', snd c))
            (table_checks (example_env 2) (example_config 2 example_schemes)))"
    by code_simp
  have rb: "(\<exists>m. InitMetadataSourceIfNotExists (example_env 2) (example_config 2 example_schemes) True (example_db [''Type'', ''MLMDEnv''] [''2''])
          = Returned (AbortedError m,
       \<lparr>tables = [''Type'', ''MLMDEnv''], env_rows = [''2''],
        issued = [''SELECT schema_version'', ''SELECT ParentType'', ''SELECT ParentContext'']\<rparr>))"
    using InitMetadataSourceIfNotExists_outcomes [OF pin, where query_config = "example_config 2 example_schemes" and enable_upgrade_migration = "True" and db = "example_db [''Type'', ''MLMDEnv''] [''2'']" and upgrade_status = "OkStatus" and upgraded = "\<lparr>tables = [''Type'', ''MLMDEnv''], env_rows = [''2''],
        issued = [''SELECT schema_version'']\<rparr>" and checks = "map (\<lambda>c. (if snd c = ''type_table'' \<or> snd c = ''mlmd_env_table'' then OkStatus
                       else InternalError ''no such table'', snd c))
            (table_checks (example_env 2) (example_config 2 example_schemes))" and checked = "\<lparr>tables = [''Type'', ''MLMDEnv''], env_rows = [''2''],
        issued = [''SELECT schema_version'', ''SELECT ParentType'', ''SELECT ParentContext'']\<rparr>"] ub okay cb pb by blast
  have uc: "UpgradeMetadataSourceIfOutOfDate (example_env 2) (example_config 2 example_schemes) True (example_db [] [])
     = Returned (OkStatus,
       \<lparr>tables = [], env_rows = [],
        issued = [''SELECT schema_version'', ''SELECT Type'']\<rparr>)"
    by code_simp
  have cc: "run_checks (table_checks (example_env 2) (example_config 2 example_schemes))
       \<lparr>tables = [], env_rows = [],
        issued = [''SELECT schema_version'', ''SELECT Type'']\<rparr>
     = Returned (map (\<lambda>c. (InternalError ''no such table'', snd c)) (table_checks (example_env 2) (example_config 2 example_schemes)),
       \<lparr>tables = [], env_rows = [],
        issued = [''SELECT schema_version'', ''SELECT Type'', ''SELECT ParentType'', ''SELECT ParentContext'']\<rparr>)"
    by code_simp
  have pc: "list_all (\<lambda>c. \<not> ok (fst c)) (map (\<lambda>c. (InternalError ''no such table'', snd c)) (table_checks (example_env 2) (example_config 2 example_schemes)))"
    by code_simp
  have sc: "run_steps (schema_steps (example_env 2) (example_config 2 example_schemes))
       \<lparr>tables = [], env_rows = [],
        issued = [''SELECT schema_version'', ''SELECT Type'', ''SELECT ParentType'', ''SELECT ParentContext'']\<rparr>
     = Returned (OkStatus,
       \<lparr>tables = map (drop 13) (map query (create_table_queries (example_config 2 example_schemes))) @ [''idx_artifact_uri''],
        env_rows = [],
        issued = [''SELECT schema_version'', ''SELECT Type'', ''SELECT ParentType'', ''SELECT ParentContext'']
                 @ map query (create_table_queries (example_config 2 example_schemes)) @ [''CREATE INDEX idx_artifact_uri'']\<rparr>)"
    by (simp add: example_defs executor_eval del: run_steps.simps(2))
  have ic: "InsertSchemaVersion (example_env 2) (GetLibraryVersion (example_env 2))
       \<lparr>tables = map (drop 13) (map query (create_table_queries (example_config 2 example_schemes))) @ [''idx_artifact_uri''],
        env_rows = [],
        issued = [''SELECT schema_version'', ''SELECT Type'', ''SELECT ParentType'', ''SELECT ParentContext'']
                 @ map query (create_table_queries (example_config 2 example_schemes)) @ [''CREATE INDEX idx_artifact_uri'']\<rparr>
     = Returned (OkStatus,
       \<lparr>tables = map (drop 13) (map query (create_table_queries (example_config 2 example_schemes))) @ [''idx_artifact_uri''],
        env_rows = [''2''],
        issued = [''SELECT schema_version'', ''SELECT Type'', ''SELECT ParentType'', ''SELECT ParentContext'']
                 @ map query (create_table_queries (example_config 2 example_schemes)) @ [''CREATE INDEX idx_artifact_uri'']\<rparr>)"
    by (simp add: example_defs executor_eval del: run_steps.simps(2))
  have rc: "InitMetadataSourceIfNotExists (example_env 2) (example_config 2 example_schemes) True (example_db [] [])
     = InitMetadataSource (example_env 2) (example_config 2 example_schemes)
       \<lparr>tables = [], env_rows = [],
        issued = [''SELECT schema_version'', ''SELECT Type'', ''SELECT ParentType'', ''SELECT ParentContext'']\<rparr>"
    using InitMetadataSourceIfNotExists_outcomes [OF pin, where query_config = "example_config 2 example_schemes" and enable_upgrade_migration = "True" and db = "example_db [] []" and upgrade_status = "OkStatus" and upgraded = "\<lparr>tables = [], env_rows = [],
        issued = [''SELECT schema_version'', ''SELECT Type'']\<rparr>" and checks = "map (\<lambda>c. (InternalError ''no such table'', snd c)) (table_checks (example_env 2) (example_config 2 example_schemes))" and checked = "\<lparr>tables = [], env_rows = [],
        issued = [''SELECT schema_version'', ''SELECT Type'', ''SELECT ParentType'', ''SELECT ParentContext'']\<rparr>" and schema_status = "OkStatus" and with_schema = "\<lparr>tables = map (drop 13) (map query (create_table_queries (example_config 2 example_schemes))) @ [''idx_artifact_uri''],
        env_rows = [],
        issued = [''SELECT schema_version'', ''SELECT Type'', ''SELECT ParentType'', ''SELECT ParentContext'']
                 @ map query (create_table_queries (example_config 2 example_schemes)) @ [''CREATE INDEX idx_artifact_uri'']\<rparr>" and insert_status = "OkStatus" and with_version = "\<lparr>tables = map (drop 13) (map query (create_table_queries (example_config 2 example_schemes))) @ [''idx_artifact_uri''],
        env_rows = [''2''],
        issued = [''SELECT schema_version'', ''SELECT Type'', ''SELECT ParentType'', ''SELECT ParentContext'']
                 @ map query (create_table_queries (example_config 2 example_schemes)) @ [''CREATE INDEX idx_artifact_uri'']\<rparr>"] uc okay cc pc by blast
  have rw: "InitMetadataSourceIfNotExists (example_env 2) (example_config 2 example_schemes) True (example_db [] [])
     = Returned (OkStatus,
       \<lparr>tables = map (drop 13) (map query (create_table_queries (example_config 2 example_schemes))) @ [''idx_artifact_uri''],
        env_rows = [''2''],
        issued = [''SELECT schema_version'', ''SELECT Type'', ''SELECT ParentType'', ''SELECT ParentContext'']
                 @ map query (create_table_queries (example_config 2 example_schemes)) @ [''CREATE INDEX idx_artifact_uri'']\<rparr>)"
    using InitMetadataSourceIfNotExists_outcomes [OF pin, where query_config = "example_config 2 example_schemes" and enable_upgrade_migration = "True" and db = "example_db [] []" and upgrade_status = "OkStatus" and upgraded = "\<lparr>tables = [], env_rows = [],
        issued = [''SELECT schema_version'', ''SELECT Type'']\<rparr>" and checks = "map (\<lambda>c. (InternalError ''no such table'', snd c)) (table_checks (example_env 2) (example_config 2 example_schemes))" and checked = "\<lparr>tables = [], env_rows = [],
        issued = [''SELECT schema_version'', ''SELECT Type'', ''SELECT ParentType'', ''SELECT ParentContext'']\<rparr>" and schema_status = "OkStatus" and with_schema = "\<lparr>tables = map (drop 13) (map query (create_table_queries (example_config 2 example_schemes))) @ [''idx_artifact_uri''],
        env_rows = [],
        issued = [''SELECT schema_version'', ''SELECT Type'', ''SELECT ParentType'', ''SELECT ParentContext'']
                 @ map query (create_table_queries (example_config 2 example_schemes)) @ [''CREATE INDEX idx_artifact_uri'']\<rparr>" and insert_status = "OkStatus" and with_version = "\<lparr>tables = map (drop 13) (map query (create_table_queries (example_config 2 example_schemes))) @ [''idx_artifact_uri''],
        env_rows = [''2''],
        issued = [''SELECT schema_version'', ''SELECT Type'', ''SELECT ParentType'', ''SELECT ParentContext'']
                 @ map query (create_table_queries (example_config 2 example_schemes)) @ [''CREATE INDEX idx_artifact_uri'']\<rparr>"] uc okay cc pc sc ic by blast
  have ud: "UpgradeMetadataSourceIfOutOfDate (example_env 2)
       (example_config 2 example_schemes\<lparr>create_parent_type_table := template ''BOGUS''\<rparr>) True (example_db [] [])
     = Returned (OkStatus,
       \<lparr>tables = [], env_rows = [],
        issued = [''SELECT schema_version'', ''SELECT Type'']\<rparr>)"
    by code_simp
  have cd: "run_checks (table_checks (example_env 2)
       (example_config 2 example_schemes\<lparr>create_parent_type_table := template ''BOGUS''\<rparr>))
       \<lparr>tables = [], env_rows = [],
        issued = [''SELECT schema_version'', ''SELECT Type'']\<rparr>
     = Returned (map (\<lambda>c. (InternalError ''no such table'', snd c))
         (table_checks (example_env 2) (example_config 2 example_schemes\<lparr>create_parent_type_table := template ''BOGUS''\<rparr>)),
       \<lparr>tables = [], env_rows = [],
        issued = [''SELECT schema_version'', ''SELECT Type'', ''SELECT ParentType'', ''SELECT ParentContext'']\<rparr>)"
    by code_simp
  have pd: "list_all (\<lambda>c. \<not> ok (fst c)) (map (\<lambda>c. (InternalError ''no such table'', snd c))
         (table_checks (example_env 2) (example_config 2 example_schemes\<lparr>create_parent_type_table := template ''BOGUS''\<rparr>)))"
    by code_simp
  have sd: "run_steps (schema_steps (example_env 2)
       (example_config 2 example_schemes\<lparr>create_parent_type_table := template ''BOGUS''\<rparr>))
       \<lparr>tables = [], env_rows = [],
        issued = [''SELECT schema_version'', ''SELECT Type'', ''SELECT ParentType'', ''SELECT ParentContext'']\<rparr>
     = Returned (InternalError ''syntax error'',
       \<lparr>tables = [''Type'', ''TypeProperty''], env_rows = [],
        issued = [''SELECT schema_version'', ''SELECT Type'', ''SELECT ParentType'', ''SELECT ParentContext'', ''CREATE TABLE Type'', ''CREATE TABLE TypeProperty'', ''BOGUS'']\<rparr>)"
    by (simp add: example_defs executor_eval del: run_steps.simps(2))
  have nd: "\<not> ok (InternalError ''syntax error'')"
    by simp
  have rd: "InitMetadataSourceIfNotExists (example_env 2)
       (example_config 2 example_schemes\<lparr>create_parent_type_table := template ''BOGUS''\<rparr>) True (example_db [] [])
     = Returned (InternalError ''syntax error'',
       \<lparr>tables = [''Type'', ''TypeProperty''], env_rows = [],
        issued = [''SELECT schema_version'', ''SELECT Type'', ''SELECT ParentType'', ''SELECT ParentContext'', ''CREATE TABLE Type'', ''CREATE TABLE TypeProperty'', ''BOGUS'']\<rparr>)"
    using InitMetadataSourceIfNotExists_outcomes [OF pin, where query_config = "example_config 2 example_schemes\<lparr>create_parent_type_table := template ''BOGUS''\<rparr>" and enable_upgrade_migration = "True" and db = "example_db [] []" and upgrade_status = "OkStatus" and upgraded = "\<lparr>tables = [], env_rows = [],
        issued = [''SELECT schema_version'', ''SELECT Type'']\<rparr>" and checks = "map (\<lambda>c. (InternalError ''no such table'', snd c))
         (table_checks (example_env 2) (example_config 2 example_schemes\<lparr>create_parent_type_table := template ''BOGUS''\<rparr>))" and checked = "\<lparr>tables = [], env_rows = [],
        issued = [''SELECT schema_version'', ''SELECT Type'', ''SELECT ParentType'', ''SELECT ParentContext'']\<rparr>" and schema_status = "InternalError ''syntax error''" and with_schema = "\<lparr>tables = [''Type'', ''TypeProperty''], env_rows = [],
        issued = [''SELECT schema_version'', ''SELECT Type'', ''SELECT ParentType'', ''SELECT ParentContext'', ''CREATE TABLE Type'', ''CREATE TABLE TypeProperty'', ''BOGUS'']\<rparr>"] ud okay cd pd sd nd by blast
  show ?thesis
    using pin okay uf rf ue ne re uk ck rk ua ca pa ra ub cb pb rb uc cc pc sc ic rc rw ud cd pd sd nd rd by blast
qed

section \<open>Two initializers\<close>

text \<open>
  C5. \<open>InitMetadataSource\<close>, once the tables and indices are made: when
  \<open>InsertSchemaVersion\<close> of the library version fails and the version probe that follows
  succeeds, the result is ok if the stored version is the library version, and DataLoss
  if it is another.
\<close>

theorem InitMetadataSource_version_race:
  assumes "run_steps (schema_steps E query_config) db = Returned (s0, db0)"
    and "ok s0"
    and "InsertSchemaVersion E (GetLibraryVersion E) db0 = Returned (s1, db1)"
    and "\<not> ok s1"
    and "GetSchemaVersion E query_config (- 1) db1 = Returned (OkStatus, db_version, db2)"
  shows
    "(db_version = GetLibraryVersion E \<longrightarrow>
        InitMetadataSource E query_config db = Returned (OkStatus, db2))
     \<and> (db_version \<noteq> GetLibraryVersion E \<longrightarrow>
        (\<exists>m. InitMetadataSource E query_config db = Returned (DataLossError m, db2)))"
  using assms
  by (auto simp add: InitMetadataSource_steps steps_then_def insert_library_version_def)

theorem InitMetadataSource_version_race_witness:
  "ok OkStatus
   \<and> \<not> ok (Status kAlreadyExists ''schema_version'')
   \<and> run_steps (schema_steps (example_env 2) (example_config 2 example_schemes)) (example_db [] [''2''])
     = Returned (OkStatus,
       \<lparr>tables = map (drop 13) (map query (create_table_queries (example_config 2 example_schemes))) @ [''idx_artifact_uri''],
        env_rows = [''2''],
        issued = map query (create_table_queries (example_config 2 example_schemes)) @ [''CREATE INDEX idx_artifact_uri'']\<rparr>)
   \<and> InsertSchemaVersion (example_env 2) (GetLibraryVersion (example_env 2))
       \<lparr>tables = map (drop 13) (map query (create_table_queries (example_config 2 example_schemes))) @ [''idx_artifact_uri''],
        env_rows = [''2''],
        issued = map query (create_table_queries (example_config 2 example_schemes)) @ [''CREATE INDEX idx_artifact_uri'']\<rparr>
     = Returned (Status kAlreadyExists ''schema_version'',
       \<lparr>tables = map (drop 13) (map query (create_table_queries (example_config 2 example_schemes))) @ [''idx_artifact_uri''],
        env_rows = [''2''],
        issued = map query (create_table_queries (example_config 2 example_schemes)) @ [''CREATE INDEX idx_artifact_uri'']\<rparr>)
   \<and> GetSchemaVersion (example_env 2) (example_config 2 example_schemes) (- 1)
       \<lparr>tables = map (drop 13) (map query (create_table_queries (example_config 2 example_schemes))) @ [''idx_artifact_uri''],
        env_rows = [''2''],
        issued = map query (create_table_queries (example_config 2 example_schemes)) @ [''CREATE INDEX idx_artifact_uri'']\<rparr>
     = Returned (OkStatus, 2,
       \<lparr>tables = map (drop 13) (map query (create_table_queries (example_config 2 example_schemes))) @ [''idx_artifact_uri''],
        env_rows = [''2''],
        issued = map query (create_table_queries (example_config 2 example_schemes)) @ [''CREATE INDEX idx_artifact_uri''] @ [''SELECT schema_version'']\<rparr>)
   \<and> (2::int) = GetLibraryVersion (example_env 2)
   \<and> InitMetadataSource (example_env 2) (example_config 2 example_schemes) (example_db [] [''2''])
     = Returned (OkStatus,
       \<lparr>tables = map (drop 13) (map query (create_table_queries (example_config 2 example_schemes))) @ [''idx_artifact_uri''],
        env_rows = [''2''],
        issued = map query (create_table_queries (example_config 2 example_schemes)) @ [''CREATE INDEX idx_artifact_uri''] @ [''SELECT schema_version'']\<rparr>)
   \<and> run_steps (schema_steps (example_env 2) (example_config 2 example_schemes)) (example_db [] [''1''])
     = Returned (OkStatus,
       \<lparr>tables = map (drop 13) (map query (create_table_queries (example_config 2 example_schemes))) @ [''idx_artifact_uri''],
        env_rows = [''1''],
        issued = map query (create_table_queries (example_config 2 example_schemes)) @ [''CREATE INDEX idx_artifact_uri'']\<rparr>)
   \<and> InsertSchemaVersion (example_env 2) (GetLibraryVersion (example_env 2))
       \<lparr>tables = map (drop 13) (map query (create_table_queries (example_config 2 example_schemes))) @ [''idx_artifact_uri''],
        env_rows = [''1''],
        issued = map query (create_table_queries (example_config 2 example_schemes)) @ [''CREATE INDEX idx_artifact_uri'']\<rparr>
     = Returned (Status kAlreadyExists ''schema_version'',
       \<lparr>tables = map (drop 13) (map query (create_table_queries (example_config 2 example_schemes))) @ [''idx_artifact_uri''],
        env_rows = [''1''],
        issued = map query (create_table_queries (example_config 2 example_schemes)) @ [''CREATE INDEX idx_artifact_uri'']\<rparr>)
   \<and> GetSchemaVersion (example_env 2) (example_config 2 example_schemes) (- 1)
       \<lparr>tables = map (drop 13) (map query (create_table_queries (example_config 2 example_schemes))) @ [''idx_artifact_uri''],
        env_rows = [''1''],
        issued = map query (create_table_queries (example_config 2 example_schemes)) @ [''CREATE INDEX idx_artifact_uri'']\<rparr>
     = Returned (OkStatus, 1,
       \<lparr>tables = map (drop 13) (map query (create_table_queries (example_config 2 example_schemes))) @ [''idx_artifact_uri''],
        env_rows = [''1''],
        issued = map query (create_table_queries (example_config 2 example_schemes)) @ [''CREATE INDEX idx_artifact_uri''] @ [''SELECT schema_version'']\<rparr>)
   \<and> (1::int) \<noteq> GetLibraryVersion (example_env 2)
   \<and> (\<exists>m. InitMetadataSource (example_env 2) (example_config 2 example_schemes) (example_db [] [''1''])
          = Returned (DataLossError m,
       \<lparr>tables = map (drop 13) (map query (create_table_queries (example_config 2 example_schemes))) @ [''idx_artifact_uri''],
        env_rows = [''1''],
        issued = map query (create_table_queries (example_config 2 example_schemes)) @ [''CREATE INDEX idx_artifact_uri''] @ [''SELECT schema_version'']\<rparr>))"
proof -
  have okay: "ok OkStatus"
    by simp
  have bad: "\<not> ok (Status kAlreadyExists ''schema_version'')"
    by (simp add: ok_def)
  have s_same: "run_steps (schema_steps (example_env 2) (example_config 2 example_schemes)) (example_db [] [''2''])
     = Returned (OkStatus,
       \<lparr>tables = map (drop 13) (map query (create_table_queries (example_config 2 example_schemes))) @ [''idx_artifact_uri''],
        env_rows = [''2''],
        issued = map query (create_table_queries (example_config 2 example_schemes)) @ [''CREATE INDEX idx_artifact_uri'']\<rparr>)"
    by (simp add: example_defs executor_eval del: run_steps.simps(2))
  have i_same: "InsertSchemaVersion (example_env 2) (GetLibraryVersion (example_env 2))
       \<lparr>tables = map (drop 13) (map query (create_table_queries (example_config 2 example_schemes))) @ [''idx_artifact_uri''],
        env_rows = [''2''],
        issued = map query (create_table_queries (example_config 2 example_schemes)) @ [''CREATE INDEX idx_artifact_uri'']\<rparr>
     = Returned (Status kAlreadyExists ''schema_version'',
       \<lparr>tables = map (drop 13) (map query (create_table_queries (example_config 2 example_schemes))) @ [''idx_artifact_uri''],
        env_rows = [''2''],
        issued = map query (create_table_queries (example_config 2 example_schemes)) @ [''CREATE INDEX idx_artifact_uri'']\<rparr>)"
    by (simp add: example_defs executor_eval del: run_steps.simps(2))
  have g_same: "GetSchemaVersion (example_env 2) (example_config 2 example_schemes) (- 1)
       \<lparr>tables = map (drop 13) (map query (create_table_queries (example_config 2 example_schemes))) @ [''idx_artifact_uri''],
        env_rows = [''2''],
        issued = map query (create_table_queries (example_config 2 example_schemes)) @ [''CREATE INDEX idx_artifact_uri'']\<rparr>
     = Returned (OkStatus, 2,
       \<lparr>tables = map (drop 13) (map query (create_table_queries (example_config 2 example_schemes))) @ [''idx_artifact_uri''],
        env_rows = [''2''],
        issued = map query (create_table_queries (example_config 2 example_schemes)) @ [''CREATE INDEX idx_artifact_uri''] @ [''SELECT schema_version'']\<rparr>)"
    by (simp add: example_defs executor_eval del: run_steps.simps(2))
  have v_same: "(2::int) = GetLibraryVersion (example_env 2)"
    by (simp add: example_env_def)
  have r_same: "InitMetadataSource (example_env 2) (example_config 2 example_schemes) (example_db [] [''2''])
     = Returned (OkStatus,
       \<lparr>tables = map (drop 13) (map query (create_table_queries (example_config 2 example_schemes))) @ [''idx_artifact_uri''],
        env_rows = [''2''],
        issued = map query (create_table_queries (example_config 2 example_schemes)) @ [''CREATE INDEX idx_artifact_uri''] @ [''SELECT schema_version'']\<rparr>)"
    using InitMetadataSource_version_race [OF s_same okay i_same bad g_same] v_same by blast
  have s_other: "run_steps (schema_steps (example_env 2) (example_config 2 example_schemes)) (example_db [] [''1''])
     = Returned (OkStatus,
       \<lparr>tables = map (drop 13) (map query (create_table_queries (example_config 2 example_schemes))) @ [''idx_artifact_uri''],
        env_rows = [''1''],
        issued = map query (create_table_queries (example_config 2 example_schemes)) @ [''CREATE INDEX idx_artifact_uri'']\<rparr>)"
    by (simp add: example_defs executor_eval del: run_steps.simps(2))
  have i_other: "InsertSchemaVersion (example_env 2) (GetLibraryVersion (example_env 2))
       \<lparr>tables = map (drop 13) (map query (create_table_queries (example_config 2 example_schemes))) @ [''idx_artifact_uri''],
        env_rows = [''1''],
        issued = map query (create_table_queries (example_config 2 example_schemes)) @ [''CREATE INDEX idx_artifact_uri'']\<rparr>
     = Returned (Status kAlreadyExists ''schema_version'',
       \<lparr>tables = map (drop 13) (map query (create_table_queries (example_config 2 example_schemes))) @ [''idx_artifact_uri''],
        env_rows = [''1''],
        issued = map query (create_table_queries (example_config 2 example_schemes)) @ [''CREATE INDEX idx_artifact_uri'']\<rparr>)"
    by (simp add: example_defs executor_eval del: run_steps.simps(2))
  have g_other: "GetSchemaVersion (example_env 2) (example_config 2 example_schemes) (- 1)
       \<lparr>tables = map (drop 13) (map query (create_table_queries (example_config 2 example_schemes))) @ [''idx_artifact_uri''],
        env_rows = [''1''],
        issued = map query (create_table_queries (example_config 2 example_schemes)) @ [''CREATE INDEX idx_artifact_uri'']\<rparr>
     = Returned (OkStatus, 1,
       \<lparr>tables = map (drop 13) (map query (create_table_queries (example_config 2 example_schemes))) @ [''idx_artifact_uri''],
        env_rows = [''1''],
        issued = map query (create_table_queries (example_config 2 example_schemes)) @ [''CREATE INDEX idx_artifact_uri''] @ [''SELECT schema_version'']\<rparr>)"
    by (simp add: example_defs executor_eval del: run_steps.simps(2))
  have v_other: "(1::int) \<noteq> GetLibraryVersion (example_env 2)"
    by (simp add: example_env_def)
  have r_other: "(\<exists>m. InitMetadataSource (example_env 2) (example_config 2 example_schemes) (example_db [] [''1''])
          = Returned (DataLossError m,
       \<lparr>tables = map (drop 13) (map query (create_table_queries (example_config 2 example_schemes))) @ [''idx_artifact_uri''],
        env_rows = [''1''],
        issued = map query (create_table_queries (example_config 2 example_schemes)) @ [''CREATE INDEX idx_artifact_uri''] @ [''SELECT schema_version'']\<rparr>))"
    using InitMetadataSource_version_race [OF s_other okay i_other bad g_other] v_other by blast
  show ?thesis
    using okay bad s_same i_same g_same v_same r_same s_other i_other g_other v_other r_other by blast
qed

section \<open>The ordering threshold clause\<close>



section \<open>The limit clause\<close>




end
